theory Spec2Isabelle
  imports Main "HOL-Library.Word" "HOL-Library.Sublist"
begin

section \<open>JavaScript values and strings\<close>

text \<open>
  A JavaScript string is a sequence of UTF-16 code units: \<open>substring\<close>, \<open>split\<close>,
  \<open>trim\<close> and the regular expression of \<open>src/index.js\<close> all count and compare code
  units. \<open>ascii\<close> embeds an ASCII literal of the source.
\<close>

type_synonym jschar = "16 word"
type_synonym jsstring = "jschar list"

definition ascii :: "string \<Rightarrow> jsstring" where
  "ascii s = map (\<lambda>c. of_nat (of_char c)) s"

text \<open>
  The values a parsed JSON body or a parsed query string can hold. \<open>JUndefined\<close> is
  what reading an absent property gives. \<open>JNum\<close> holds the integer-valued numbers (the
  rounding of doubles is outside the model), \<open>JNaN\<close> is what \<open>parseInt\<close> gives on a
  string without digits. \<open>JObj\<close> is a plain object: the program never reads a property
  of a nested object.
\<close>

datatype jsval =
    JUndefined
  | JNull
  | JBool bool
  | JNum int
  | JNaN
  | JStr jsstring
  | JArr "jsval list"
  | JObj

text \<open>\<open>req.body\<close>, \<open>req.query\<close>: property name to value, \<open>JUndefined\<close> when absent.\<close>

type_synonym jsobject = "string \<Rightarrow> jsval"

definition no_properties :: jsobject where
  "no_properties = (\<lambda>_. JUndefined)"

text \<open>The truthiness test of \<open>x ? a : b\<close>, \<open>x || y\<close>, \<open>x && y\<close> and \<open>if (x)\<close>.\<close>

fun truthy :: "jsval \<Rightarrow> bool" where
  "truthy JUndefined = False"
| "truthy JNull = False"
| "truthy (JBool b) = b"
| "truthy (JNum n) = (n \<noteq> 0)"
| "truthy JNaN = False"
| "truthy (JStr s) = (s \<noteq> [])"
| "truthy (JArr xs) = True"
| "truthy JObj = True"

text \<open>\<open>xs.join(sep)\<close> on strings.\<close>

fun join :: "'a list \<Rightarrow> 'a list list \<Rightarrow> 'a list" where
  "join sep [] = []"
| "join sep [x] = x"
| "join sep (x # y # ys) = x @ sep @ join sep (y # ys)"

text \<open>The decimal numeral of an integer, as \<open>Number.prototype.toString\<close> prints it.\<close>

function show_nat :: "nat \<Rightarrow> jsstring" where
  "show_nat n =
     (if n < 10 then [of_nat (48 + n)]
      else show_nat (n div 10) @ [of_nat (48 + n mod 10)])"
  by pat_completeness auto
termination
  by (relation "measure id") auto

declare show_nat.simps [simp del]

definition decimal :: "int \<Rightarrow> jsstring" where
  "decimal i = (if i < 0 then 0x2D # show_nat (nat (- i)) else show_nat (nat i))"

text \<open>
  \<open>ToString\<close>, as a template literal and \<open>Array.prototype.join\<close> apply it. An array
  prints as its elements joined by a comma, \<open>undefined\<close> and \<open>null\<close> elements as the
  empty string.
\<close>

fun ToString :: "jsval \<Rightarrow> jsstring" where
  "ToString JUndefined = ascii ''undefined''"
| "ToString JNull = ascii ''null''"
| "ToString (JBool b) = (if b then ascii ''true'' else ascii ''false'')"
| "ToString (JNum n) = decimal n"
| "ToString JNaN = ascii ''NaN''"
| "ToString (JStr s) = s"
| "ToString (JArr xs) =
     join (ascii '','')
       (map (\<lambda>x. if x = JUndefined \<or> x = JNull then [] else ToString x) xs)"
| "ToString JObj = ascii ''[object Object]''"

text \<open>\<open>keywords.join(sep)\<close> on an array value.\<close>

definition array_join :: "jsstring \<Rightarrow> jsval list \<Rightarrow> jsstring" where
  "array_join sep xs =
     join sep (map (\<lambda>x. if x = JUndefined \<or> x = JNull then [] else ToString x) xs)"

text \<open>\<open>s.split(c)\<close> for a one-character separator: never the empty list.\<close>

fun split :: "'a \<Rightarrow> 'a list \<Rightarrow> 'a list list" where
  "split c [] = [[]]"
| "split c (x # xs) =
     (if x = c then [] # split c xs
      else (case split c xs of
              [] \<Rightarrow> [[x]]
            | y # ys \<Rightarrow> (x # y) # ys))"

text \<open>The white space and line terminators that \<open>trim\<close> and \<open>parseInt\<close> skip.\<close>

definition is_space :: "jschar \<Rightarrow> bool" where
  "is_space c \<longleftrightarrow>
     c \<in> {0x0009, 0x000A, 0x000B, 0x000C, 0x000D, 0x0020, 0x00A0, 0x1680,
          0x2028, 0x2029, 0x202F, 0x205F, 0x3000, 0xFEFF}
     \<or> (0x2000 \<le> c \<and> c \<le> 0x200A)"

definition trim :: "jsstring \<Rightarrow> jsstring" where
  "trim s = rev (dropWhile is_space (rev (dropWhile is_space s)))"

text \<open>
  \<open>s.replace(/<[^>]*>/g, '')\<close>. A match starts at a \<open><\<close> that has a \<open>>\<close> somewhere
  after it and ends at the first such \<open>>\<close>; the scan goes on behind the match. A
  \<open><\<close> with no \<open>>\<close> after it matches nothing and is kept.
\<close>

function strip_tags :: "jsstring \<Rightarrow> jsstring" where
  "strip_tags [] = []"
| "strip_tags (c # cs) =
     (if c = 0x3C then
        (case dropWhile (\<lambda>d. d \<noteq> 0x3E) cs of
           [] \<Rightarrow> c # strip_tags cs
         | d # rest \<Rightarrow> strip_tags rest)
      else c # strip_tags cs)"
  by pat_completeness auto
termination
proof (relation "measure length")
  fix c d :: jschar and cs rest :: jsstring
  assume "dropWhile (\<lambda>d. d \<noteq> 0x3E) cs = d # rest"
  then have "length (d # rest) \<le> length cs"
    by (metis length_dropWhile_le)
  then show "(rest, c # cs) \<in> measure length"
    by simp
qed simp_all

text \<open>
  \<open>parseInt(v)\<close>: the string of \<open>v\<close> without leading white space, an optional sign,
  an optional \<open>0x\<close> for radix 16, then the longest run of digits; \<open>NaN\<close> when the run
  is empty.
\<close>

definition digit_value :: "jschar \<Rightarrow> nat option" where
  "digit_value c =
     (if 0x30 \<le> c \<and> c \<le> 0x39 then Some (unat c - 48)
      else if 0x61 \<le> c \<and> c \<le> 0x7A then Some (unat c - 87)
      else if 0x41 \<le> c \<and> c \<le> 0x5A then Some (unat c - 55)
      else None)"

definition is_digit :: "nat \<Rightarrow> jschar \<Rightarrow> bool" where
  "is_digit radix c = (case digit_value c of None \<Rightarrow> False | Some d \<Rightarrow> d < radix)"

definition digits_value :: "nat \<Rightarrow> jsstring \<Rightarrow> nat" where
  "digits_value radix ds =
     foldl (\<lambda>a c. a * radix + (case digit_value c of None \<Rightarrow> 0 | Some d \<Rightarrow> d)) 0 ds"

definition parseInt :: "jsval \<Rightarrow> jsval" where
  "parseInt v =
     (let s = dropWhile is_space (ToString v);
          negative = (take 1 s = [0x2D]);
          s = (if take 1 s = [0x2D] \<or> take 1 s = [0x2B] then drop 1 s else s);
          hex = (take 2 s = ascii ''0x'' \<or> take 2 s = ascii ''0X'');
          radix = (if hex then 16 else 10);
          s = (if hex then drop 2 s else s);
          ds = takeWhile (is_digit radix) s
      in if ds = [] then JNaN
         else JNum ((if negative then - 1 else 1) * int (digits_value radix ds)))"

section \<open>Rows, topics and the storage interface\<close>

text \<open>
  A JavaScript \<open>Date\<close> is represented by the string its \<open>toISOString()\<close> gives;
  \<open>res.json\<close> prints it the same way.
\<close>

type_synonym date = jsstring

text \<open>
  The columns of the table \<open>topics\<close> (\<open>CREATE TABLE\<close>, lines 47 to 60), with the
  type of \<open>keywords\<close> left open: text or \<open>NULL\<close> in a stored row, a list of strings
  in a topic of the API. \<open>title\<close> is \<open>NOT NULL\<close>.
\<close>

record 'k columns =
  topic_id :: int
  title :: jsstring
  category :: "jsstring option"
  "keywords" :: 'k
  preview :: "jsstring option"
  content :: "jsstring option"
  author :: "jsstring option"
  created_date :: "date option"
  views :: "int option"
  helpful :: "int option"

type_synonym row = "jsstring option columns"

record 'k dated = "'k columns" +
  date :: jsstring

type_synonym topic = "jsstring list dated"

text \<open>Errors as values: what a handler's \<open>catch\<close> receives, with its message.\<close>

datatype error = TypeError string | StorageError string

fun message :: "error \<Rightarrow> string" where
  "message (TypeError m) = m"
| "message (StorageError m) = m"

text \<open>
  What \<open>const [x] = await pool.query(sql, params)\<close> binds: the rows of a
  \<open>SELECT\<close>, or the header of a write. The statistics handler passes its rows on
  as they come; the columns of the grouped count are not modelled.
\<close>

datatype result =
    Rows "row list"
  | Header (insertId: int) (affectedRows: nat)

text \<open>
  \<open>pool.query\<close>: a statement and its parameters, run on a storage state. The handlers
  are written over any such function; \<open>None\<close> is the \<open>pool\<close> that was never
  created because \<open>DB_HOST\<close> is not set.
\<close>

type_synonym 'db pool = "string \<Rightarrow> jsval list \<Rightarrow> 'db \<Rightarrow> (error + result) \<times> 'db"

text \<open>
  The JSON bodies the handlers send, and the response with its status. The empty array
  \<open>[]\<close> is \<open>Topics []\<close> where topics are listed and \<open>Raw (Rows [])\<close> where the
  rows of a query are passed on.
\<close>

datatype payload =
    Topics "topic list"
  | Topic topic
  | Error string
  | Created jsval
  | Success
  | Raw result

datatype response = Response (status: nat) (json: payload)

section \<open>The handlers of \<open>src/index.js\<close>\<close>

text \<open>
  The row transform of lines 110 to 114 and 136 to 140: the row's own columns, with
  \<open>keywords\<close> split at commas and trimmed, and \<open>date\<close> the part of the creation
  time before \<open>T\<close> (of the current time \<open>now\<close> when the column is \<open>NULL\<close>).
\<close>

definition first_part :: "jsstring list \<Rightarrow> jsstring" where
  "first_part parts = (case parts of [] \<Rightarrow> [] | x # _ \<Rightarrow> x)"

definition to_topic :: "date \<Rightarrow> row \<Rightarrow> topic" where
  "to_topic now r =
     \<lparr> topic_id = topic_id r, title = title r, category = category r,
       keywords =
         (case keywords r of
            None \<Rightarrow> []
          | Some k \<Rightarrow> if k = [] then [] else map trim (split 0x2C k)),
       preview = preview r, content = content r, author = author r,
       created_date = created_date r, views = views r, helpful = helpful r,
       date =
         (case created_date r of
            Some d \<Rightarrow> first_part (split 0x54 d)
          | None \<Rightarrow> first_part (split 0x54 now)) \<rparr>"

text \<open>The fixed statements, as the source writes them.\<close>

definition sql_select_by_id :: string where
  "sql_select_by_id = ''SELECT * FROM topics WHERE id = ?''"

definition sql_insert :: string where
  "sql_insert =
     ''INSERT INTO topics (title, category, keywords, preview, content, author) VALUES (?, ?, ?, ?, ?, ?)''"

definition sql_increment_views :: string where
  "sql_increment_views = ''UPDATE topics SET views = views + 1 WHERE id = ?''"

definition sql_increment_helpful :: string where
  "sql_increment_helpful = ''UPDATE topics SET helpful = helpful + 1 WHERE id = ?''"

definition sql_update :: string where
  "sql_update =
     ''UPDATE topics SET title = ?, category = ?, keywords = ?, preview = ?, content = ?, author = ? WHERE id = ?''"

definition sql_delete :: string where
  "sql_delete = ''DELETE FROM topics WHERE id = ?''"

definition sql_category_stats :: string where
  "sql_category_stats =
     ''SELECT category, COUNT(*) as count FROM topics GROUP BY category ORDER BY count DESC''"

text \<open>The placeholder author: \<open>Usu\<close>, U+00E1, \<open>rio\<close>.\<close>

definition placeholder_author :: jsstring where
  "placeholder_author = ascii ''Usu'' @ [0xE1] @ ascii ''rio''"

text \<open>
  \<open>GET /api/topics\<close> (lines 71 to 121). A result that is not a list of rows has no
  \<open>map\<close>; the call throws and the \<open>catch\<close> answers.
\<close>

definition get_topics :: "'db pool option \<Rightarrow> date \<Rightarrow> jsobject \<Rightarrow> 'db \<Rightarrow> response \<times> 'db" where
  "get_topics pool now query db =
     (case pool of
        None \<Rightarrow> (Response 200 (Topics []), db)
      | Some p \<Rightarrow>
          (let sql = ''SELECT * FROM topics'';
               params = [];
               search = query ''search'';
               category = query ''category'';
               limit = query ''limit'';
               (sql, params) =
                 (if truthy search \<or> (truthy category \<and> category \<noteq> JStr (ascii ''all'')) then
                    (let sql = sql @ '' WHERE '';
                         conditions = [];
                         searchTerm = JStr (ascii ''%'' @ ToString search @ ascii ''%'');
                         (conditions, params) =
                           (if truthy search then
                              (conditions @ [''(title LIKE ? OR keywords LIKE ? OR content LIKE ?)''],
                               params @ [searchTerm, searchTerm, searchTerm])
                            else (conditions, params));
                         (conditions, params) =
                           (if truthy category \<and> category \<noteq> JStr (ascii ''all'') then
                              (conditions @ [''category = ?''], params @ [category])
                            else (conditions, params))
                     in (sql @ join '' AND '' conditions, params))
                  else (sql, params));
               sql = sql @ '' ORDER BY created_date DESC'';
               (sql, params) =
                 (if truthy limit then (sql @ '' LIMIT ?'', params @ [parseInt limit])
                  else (sql, params))
           in (case p sql params db of
                 (Inl e, db') \<Rightarrow> (Response 500 (Error (message e)), db')
               | (Inr (Rows rows), db') \<Rightarrow> (Response 200 (Topics (map (to_topic now) rows)), db')
               | (Inr _, db') \<Rightarrow>
                   (Response 500 (Error (message (TypeError ''rows.map is not a function''))), db'))))"

text \<open>
  \<open>GET /api/topics/:id\<close> (lines 124 to 147); \<open>id_param\<close> is \<open>req.params.id\<close>, a
  string. A header has no \<open>length\<close> and no first row: reading \<open>rows[0].keywords\<close>
  throws.
\<close>

definition get_topic :: "'db pool option \<Rightarrow> date \<Rightarrow> jsstring \<Rightarrow> 'db \<Rightarrow> response \<times> 'db" where
  "get_topic pool now id_param db =
     (case pool of
        None \<Rightarrow> (Response 404 (Error ''Topic not found''), db)
      | Some p \<Rightarrow>
          (case p sql_select_by_id [JStr id_param] db of
             (Inl e, db') \<Rightarrow> (Response 500 (Error (message e)), db')
           | (Inr (Rows rows), db') \<Rightarrow>
               (case rows of
                  [] \<Rightarrow> (Response 404 (Error ''Topic not found''), db')
                | r # _ \<Rightarrow> (Response 200 (Topic (to_topic now r)), db'))
           | (Inr _, db') \<Rightarrow>
               (Response 500
                  (Error (message (TypeError ''Cannot read properties of undefined''))), db')))"

text \<open>
  \<open>POST /api/topics\<close> (lines 150 to 171). \<open>content.replace\<close> exists on strings only:
  a truthy \<open>content\<close> of another type throws before any statement is sent.
\<close>

definition post_topics :: "'db pool option \<Rightarrow> jsobject \<Rightarrow> 'db \<Rightarrow> response \<times> 'db" where
  "post_topics pool body db =
     (case pool of
        None \<Rightarrow> (Response 500 (Error ''Database not available''), db)
      | Some p \<Rightarrow>
          (let title = body ''title'';
               category = body ''category'';
               keywords = body ''keywords'';
               content = body ''content'';
               author = body ''author'';
               keywordStr =
                 (case keywords of
                    JArr xs \<Rightarrow> JStr (array_join (ascii '', '') xs)
                  | _ \<Rightarrow> if truthy keywords then keywords else JStr []);
               preview =
                 (if truthy content then
                    (case content of
                       JStr s \<Rightarrow> Inr (take 200 (strip_tags s) @ ascii ''...'')
                     | _ \<Rightarrow> Inl (TypeError ''content.replace is not a function''))
                  else Inr [])
           in (case preview of
                 Inl e \<Rightarrow> (Response 500 (Error (message e)), db)
               | Inr text \<Rightarrow>
                   (case p sql_insert
                           [title, category, keywordStr, JStr text, content,
                            if truthy author then author else JStr placeholder_author] db of
                      (Inl e, db') \<Rightarrow> (Response 500 (Error (message e)), db')
                    | (Inr result, db') \<Rightarrow>
                        (Response 200
                           (Created (case result of
                                       Header i n \<Rightarrow> JNum i
                                     | _ \<Rightarrow> JUndefined)), db')))))"

text \<open>\<open>PUT /api/topics/:id\<close> (lines 174 to 203).\<close>

definition put_topic :: "'db pool option \<Rightarrow> jsstring \<Rightarrow> jsobject \<Rightarrow> 'db \<Rightarrow> response \<times> 'db" where
  "put_topic pool id_param updates db =
     (case pool of
        None \<Rightarrow> (Response 500 (Error ''Database not available''), db)
      | Some p \<Rightarrow>
          (let answer = (\<lambda>ran.
                 case ran of
                   (Inl e, db') \<Rightarrow> (Response 500 (Error (message e)), db')
                 | (Inr _, db') \<Rightarrow> (Response 200 Success, db'))
           in if truthy (updates ''incrementView'') then
                answer (p sql_increment_views [JStr id_param] db)
              else if truthy (updates ''incrementHelpful'') then
                answer (p sql_increment_helpful [JStr id_param] db)
              else
                (let title = updates ''title'';
                     category = updates ''category'';
                     keywords = updates ''keywords'';
                     content = updates ''content'';
                     author = updates ''author'';
                     keywordStr =
                       (case keywords of
                          JArr xs \<Rightarrow> JStr (array_join (ascii '', '') xs)
                        | _ \<Rightarrow> if truthy keywords then keywords else JStr []);
                     preview =
                       (if truthy content then
                          (case content of
                             JStr s \<Rightarrow> Inr (take 200 (strip_tags s) @ ascii ''...'')
                           | _ \<Rightarrow> Inl (TypeError ''content.replace is not a function''))
                        else Inr [])
                 in (case preview of
                       Inl e \<Rightarrow> (Response 500 (Error (message e)), db)
                     | Inr text \<Rightarrow>
                         answer (p sql_update
                                   [title, category, keywordStr, JStr text, content,
                                    if truthy author then author else JStr placeholder_author,
                                    JStr id_param] db)))))"

text \<open>\<open>DELETE /api/topics/:id\<close> (lines 206 to 218).\<close>

definition delete_topic :: "'db pool option \<Rightarrow> jsstring \<Rightarrow> 'db \<Rightarrow> response \<times> 'db" where
  "delete_topic pool id_param db =
     (case pool of
        None \<Rightarrow> (Response 500 (Error ''Database not available''), db)
      | Some p \<Rightarrow>
          (case p sql_delete [JStr id_param] db of
             (Inl e, db') \<Rightarrow> (Response 500 (Error (message e)), db')
           | (Inr _, db') \<Rightarrow> (Response 200 Success, db')))"

text \<open>\<open>GET /api/stats/categories\<close> (lines 221 to 236).\<close>

definition get_category_stats :: "'db pool option \<Rightarrow> 'db \<Rightarrow> response \<times> 'db" where
  "get_category_stats pool db =
     (case pool of
        None \<Rightarrow> (Response 200 (Raw (Rows [])), db)
      | Some p \<Rightarrow>
          (case p sql_category_stats [] db of
             (Inl e, db') \<Rightarrow> (Response 500 (Error (message e)), db')
           | (Inr rows, db') \<Rightarrow> (Response 200 (Raw rows), db')))"

section \<open>The storage engine\<close>

text \<open>
  The relational engine and its driver are external to the repository. This is the
  behaviour the handlers rely on (spec, section 6: parameterised statements, an
  auto-incrementing integer key, an atomic increment of one column), for the
  statements that address a row by \<open>id\<close>. The engine runs in strict mode, the
  default: a value that a column cannot hold is an error and the statement changes
  nothing. The widths of the text columns and the character set are not modelled.
  The statements that list and count are not interpreted: what is proved about
  their handlers holds for every \<open>pool\<close>.
\<close>

record db =
  rows :: "row list"
  auto_increment :: int
  clock :: date

text \<open>
  A parameter bound to a text column: \<open>undefined\<close> and \<open>null\<close> are \<open>NULL\<close>, a
  string is itself, a number is its numeral, a boolean is \<open>1\<close> or \<open>0\<close>. The driver
  expands an array or an object into a fragment of SQL and prints \<open>NaN\<close> bare, which
  leaves the statement malformed: the engine rejects it. (It rejects every array
  here, also the array of one element, which the driver prints as that element.)
\<close>

fun storable :: "jsval \<Rightarrow> bool" where
  "storable JNaN = False"
| "storable (JArr xs) = False"
| "storable JObj = False"
| "storable _ = True"

fun stored :: "jsval \<Rightarrow> jsstring option" where
  "stored (JStr s) = Some s"
| "stored (JNum n) = Some (decimal n)"
| "stored (JBool b) = Some (if b then ascii ''1'' else ascii ''0'')"
| "stored _ = None"

definition sql_text :: "jsval \<Rightarrow> error + jsstring option" where
  "sql_text v =
     (if storable v then Inr (stored v)
      else Inl (StorageError ''You have an error in your SQL syntax''))"

fun sql_texts :: "jsval list \<Rightarrow> error + jsstring option list" where
  "sql_texts [] = Inr []"
| "sql_texts (v # vs) =
     (case sql_text v of
        Inl e \<Rightarrow> Inl e
      | Inr t \<Rightarrow> (case sql_texts vs of Inl e \<Rightarrow> Inl e | Inr ts \<Rightarrow> Inr (t # ts)))"

text \<open>
  \<open>WHERE id = ?\<close>: the engine compares the \<open>INT\<close> column with the parameter as
  numbers. A string parameter is read as a decimal integer literal, an optional
  minus sign and digits. A string that is no such literal matches no row here; the
  engine's conversion of a numeric prefix is not modelled.
\<close>

definition parse_nat :: "jsstring \<Rightarrow> nat option" where
  "parse_nat s =
     (if s \<noteq> [] \<and> list_all (is_digit 10) s then Some (digits_value 10 s) else None)"

definition parse_decimal :: "jsstring \<Rightarrow> int option" where
  "parse_decimal s =
     (case s of
        [] \<Rightarrow> None
      | c # r \<Rightarrow>
          if c = 0x2D then map_option (\<lambda>n. - int n) (parse_nat r)
          else map_option int (parse_nat s))"

fun id_matches :: "jsval \<Rightarrow> int \<Rightarrow> bool" where
  "id_matches (JStr s) i = (parse_decimal s = Some i)"
| "id_matches (JNum n) i = (n = i)"
| "id_matches _ i = False"

definition matching :: "jsval \<Rightarrow> row \<Rightarrow> bool" where
  "matching p r = id_matches p (topic_id r)"

text \<open>
  The columns \<open>id\<close>, \<open>views\<close> and \<open>helpful\<close> are \<open>INT\<close>: no value above
  \<open>int_max\<close> is stored. A counter that is \<open>NULL\<close> stays \<open>NULL\<close> when incremented.
\<close>

definition int_max :: int where
  "int_max = 2147483647"

definition at_int_max :: "int option \<Rightarrow> bool" where
  "at_int_max v = (case v of None \<Rightarrow> False | Some n \<Rightarrow> int_max \<le> n)"

text \<open>
  \<open>INSERT\<close>: the key is the counter, which then advances; \<open>created_date\<close>, \<open>views\<close>
  and \<open>helpful\<close> take their defaults. A \<open>NULL\<close> title violates \<open>NOT NULL\<close>, and a
  counter that has run past \<open>int_max\<close> gives no new key.
\<close>

fun insert_topic :: "jsstring option list \<Rightarrow> db \<Rightarrow> (error + result) \<times> db" where
  "insert_topic [Some t, c, k, p, co, a] db =
     (if int_max < auto_increment db then
        (Inl (StorageError ''Duplicate entry for key PRIMARY''), db)
      else
        (Inr (Header (auto_increment db) 1),
         db\<lparr> rows := rows db @
                 [\<lparr> topic_id = auto_increment db, title = t, category = c, keywords = k,
                    preview = p, content = co, author = a, created_date = Some (clock db),
                    views = Some 0, helpful = Some 0 \<rparr>],
             auto_increment := auto_increment db + 1 \<rparr>))"
| "insert_topic [None, c, k, p, co, a] db =
     (Inl (StorageError ''Column title cannot be null''), db)"
| "insert_topic _ db = (Inl (StorageError ''Column count does not match value count''), db)"

text \<open>
  \<open>UPDATE ... SET title = ?, ... WHERE id = ?\<close>: every matching row takes the six
  values. \<open>NOT NULL\<close> is checked on the rows that are written.
\<close>

fun update_topic :: "jsstring option list \<Rightarrow> jsval \<Rightarrow> db \<Rightarrow> (error + result) \<times> db" where
  "update_topic [t, c, k, p, co, a] i db =
     (if filter (matching i) (rows db) = [] then (Inr (Header 0 0), db)
      else (case t of
              None \<Rightarrow> (Inl (StorageError ''Column title cannot be null''), db)
            | Some t' \<Rightarrow>
                (Inr (Header 0 (length (filter (matching i) (rows db)))),
                 db\<lparr> rows := map (\<lambda>r. if matching i r
                                       then r\<lparr> title := t', category := c, keywords := k,
                                               preview := p, content := co, author := a \<rparr>
                                       else r) (rows db) \<rparr>)))"
| "update_topic _ i db = (Inl (StorageError ''You have an error in your SQL syntax''), db)"

definition engine :: "db pool" where
  "engine sql params db =
     (if sql = sql_select_by_id then
        (case params of
           [i] \<Rightarrow> (Inr (Rows (filter (matching i) (rows db))), db)
         | _ \<Rightarrow> (Inl (StorageError ''You have an error in your SQL syntax''), db))
      else if sql = sql_insert then
        (case sql_texts params of
           Inl e \<Rightarrow> (Inl e, db)
         | Inr ts \<Rightarrow> insert_topic ts db)
      else if sql = sql_increment_views then
        (case params of
           [i] \<Rightarrow>
             if list_ex (\<lambda>r. matching i r \<and> at_int_max (views r)) (rows db) then
               (Inl (StorageError ''Out of range value for column views''), db)
             else
               (Inr (Header 0 (length (filter (matching i) (rows db)))),
                db\<lparr> rows := map (\<lambda>r. if matching i r
                                      then r\<lparr> views := map_option (\<lambda>n. n + 1) (views r) \<rparr>
                                      else r) (rows db) \<rparr>)
         | _ \<Rightarrow> (Inl (StorageError ''You have an error in your SQL syntax''), db))
      else if sql = sql_increment_helpful then
        (case params of
           [i] \<Rightarrow>
             if list_ex (\<lambda>r. matching i r \<and> at_int_max (helpful r)) (rows db) then
               (Inl (StorageError ''Out of range value for column helpful''), db)
             else
               (Inr (Header 0 (length (filter (matching i) (rows db)))),
                db\<lparr> rows := map (\<lambda>r. if matching i r
                                      then r\<lparr> helpful := map_option (\<lambda>n. n + 1) (helpful r) \<rparr>
                                      else r) (rows db) \<rparr>)
         | _ \<Rightarrow> (Inl (StorageError ''You have an error in your SQL syntax''), db))
      else if sql = sql_update then
        (case sql_texts (butlast params) of
           Inl e \<Rightarrow> (Inl e, db)
         | Inr ts \<Rightarrow>
             (case params of
                [] \<Rightarrow> (Inl (StorageError ''You have an error in your SQL syntax''), db)
              | _ \<Rightarrow> update_topic ts (last params) db))
      else if sql = sql_delete then
        (case params of
           [i] \<Rightarrow>
             (Inr (Header 0 (length (filter (matching i) (rows db)))),
              db\<lparr> rows := filter (\<lambda>r. \<not> matching i r) (rows db) \<rparr>)
         | _ \<Rightarrow> (Inl (StorageError ''You have an error in your SQL syntax''), db))
      else (Inl (StorageError ''statement not interpreted''), db))"

text \<open>
  The invariant of the auto-incrementing key: every stored key is below the counter,
  so a new row's key is fresh.
\<close>

definition keys_below_counter :: "db \<Rightarrow> bool" where
  "keys_below_counter d \<longleftrightarrow> list_all (\<lambda>r. topic_id r < auto_increment d) (rows d)"

text \<open>The state after \<open>POST /api/init\<close> on a fresh database, at time \<open>t\<close>.\<close>

definition empty_db :: "date \<Rightarrow> db" where
  "empty_db t = \<lparr> rows = [], auto_increment = 1, clock = t \<rparr>"

text \<open>A pool that runs nothing and records the statements it is sent, in order.\<close>

definition recording :: "(string \<times> jsval list) list pool" where
  "recording sql params sent = (Inr (Header 0 0), sent @ [(sql, params)])"

section \<open>Vocabulary of the statements\<close>

text \<open>
  Names for the three values of lines 158, 159 and 163 (again 189, 190 and 194), used
  in the statements below. The handlers above carry their own copies of these
  expressions, as the source does.
\<close>

definition keywordStr_of :: "jsval \<Rightarrow> jsval" where
  "keywordStr_of k =
     (case k of
        JArr xs \<Rightarrow> JStr (array_join (ascii '', '') xs)
      | _ \<Rightarrow> if truthy k then k else JStr [])"

definition replace_throws :: "jsval \<Rightarrow> bool" where
  "replace_throws c \<longleftrightarrow> truthy c \<and> (case c of JStr s \<Rightarrow> False | _ \<Rightarrow> True)"

definition preview_of :: "jsval \<Rightarrow> jsstring" where
  "preview_of c =
     (case c of
        JStr s \<Rightarrow> if s = [] then [] else take 200 (strip_tags s) @ ascii ''...''
      | _ \<Rightarrow> [])"

definition author_of :: "jsval \<Rightarrow> jsval" where
  "author_of a = (if truthy a then a else JStr placeholder_author)"

text \<open>The six parameters that a create and a full replacement bind to the columns.\<close>

definition column_params :: "jsobject \<Rightarrow> jsval list" where
  "column_params body =
     [body ''title'', body ''category'', keywordStr_of (body ''keywords''),
      JStr (preview_of (body ''content'')), body ''content'', author_of (body ''author'')]"

text \<open>Whether the engine accepts all six.\<close>

definition storable_params :: "jsobject \<Rightarrow> bool" where
  "storable_params body \<longleftrightarrow> list_all storable (column_params body)"

text \<open>The row a successful create appends, and the row a full replacement leaves.\<close>

definition created_row :: "jsobject \<Rightarrow> db \<Rightarrow> row" where
  "created_row body d =
     \<lparr> topic_id = auto_increment d,
       title = (case stored (body ''title'') of None \<Rightarrow> [] | Some t \<Rightarrow> t),
       category = stored (body ''category''),
       keywords = stored (keywordStr_of (body ''keywords'')),
       preview = Some (preview_of (body ''content'')),
       content = stored (body ''content''),
       author = stored (author_of (body ''author'')),
       created_date = Some (clock d), views = Some 0, helpful = Some 0 \<rparr>"

definition replaced_row :: "jsobject \<Rightarrow> row \<Rightarrow> row" where
  "replaced_row body r =
     r\<lparr> title := (case stored (body ''title'') of None \<Rightarrow> [] | Some t \<Rightarrow> t),
        category := stored (body ''category''),
        keywords := stored (keywordStr_of (body ''keywords'')),
        preview := Some (preview_of (body ''content'')),
        content := stored (body ''content''),
        author := stored (author_of (body ''author'')) \<rparr>"

text \<open>Whether the pattern \<open><[^>]*>\<close> matches somewhere: a \<open><\<close> with a \<open>>\<close> after it.\<close>

fun has_tag :: "jsstring \<Rightarrow> bool" where
  "has_tag [] = False"
| "has_tag (c # cs) = ((c = 0x3C \<and> 0x3E \<in> set cs) \<or> has_tag cs)"

text \<open>The third and the fourth parameter of a statement: keywords and preview.\<close>

definition keywords_param :: "jsval list \<Rightarrow> jsval option" where
  "keywords_param ps = (case drop 2 ps of [] \<Rightarrow> None | k # _ \<Rightarrow> Some k)"

definition preview_param :: "jsval list \<Rightarrow> jsval option" where
  "preview_param ps = (case drop 3 ps of [] \<Rightarrow> None | k # _ \<Rightarrow> Some k)"

section \<open>Example data\<close>

text \<open>
  The scenario of the spec, section 8: a topic with title \<open>X\<close> and content
  \<open><b>Hi</b> there\<close> is created on an empty table; \<open>example_db\<close> is the state after.
\<close>

definition example_time :: date where
  "example_time = ascii ''2024-05-06T07:08:09.000Z''"

definition example_body :: jsobject where
  "example_body =
     no_properties(''title'' := JStr (ascii ''X''), ''content'' := JStr (ascii ''<b>Hi</b> there''))"

definition example_row :: row where
  "example_row =
     \<lparr> topic_id = 1, title = ascii ''X'', category = None, keywords = Some [],
       preview = Some (ascii ''Hi there...''), content = Some (ascii ''<b>Hi</b> there''),
       author = Some placeholder_author, created_date = Some example_time,
       views = Some 0, helpful = Some 0 \<rparr>"

definition example_db :: db where
  "example_db = \<lparr> rows = [example_row], auto_increment = 2, clock = example_time \<rparr>"

text \<open>The same body with the empty string as author.\<close>

definition example_unsigned :: jsobject where
  "example_unsigned = example_body(''author'' := JStr [])"

text \<open>
  The same body with keywords: one keyword with a leading space, one empty keyword,
  and the two keywords \<open>a\<close> and \<open>b\<close> of the spec.
\<close>

definition example_spaced :: jsobject where
  "example_spaced = example_body(''keywords'' := JArr [JStr (ascii '' a'')])"

definition example_blank :: jsobject where
  "example_blank = example_body(''keywords'' := JArr [JStr []])"

definition example_tagged :: jsobject where
  "example_tagged = example_body(''keywords'' := JArr [JStr (ascii ''a''), JStr (ascii ''b'')])"

text \<open>
  Update bodies: a full replacement that submits a title and nothing else, with the
  row it leaves in place of \<open>example_row\<close>; the same body with both flags set; and
  with the helpful flag alone.
\<close>

definition example_update :: jsobject where
  "example_update = no_properties(''title'' := JStr (ascii ''T''))"




text \<open>A full replacement whose content is the number 5.\<close>

definition example_bad_content :: jsobject where
  "example_bad_content = example_update(''content'' := JNum 5)"

section \<open>The engine on the statements of the handlers\<close>

lemma engine_select_by_id:
  "engine sql_select_by_id [i] d = (Inr (Rows (filter (matching i) (rows d))), d)"
  by (simp add: engine_def)

lemma engine_insert:
  "engine sql_insert ps d =
     (case sql_texts ps of Inl e \<Rightarrow> (Inl e, d) | Inr ts \<Rightarrow> insert_topic ts d)"
  by (simp add: engine_def sql_insert_def sql_select_by_id_def)

lemma engine_increment_views:
  "engine sql_increment_views [i] d =
     (if list_ex (\<lambda>r. matching i r \<and> at_int_max (views r)) (rows d) then
        (Inl (StorageError ''Out of range value for column views''), d)
      else
        (Inr (Header 0 (length (filter (matching i) (rows d)))),
         d\<lparr> rows := map (\<lambda>r. if matching i r
                               then r\<lparr> views := map_option (\<lambda>n. n + 1) (views r) \<rparr>
                               else r) (rows d) \<rparr>))"
  by (simp add: engine_def sql_increment_views_def sql_insert_def sql_select_by_id_def)

lemma engine_increment_helpful:
  "engine sql_increment_helpful [i] d =
     (if list_ex (\<lambda>r. matching i r \<and> at_int_max (helpful r)) (rows d) then
        (Inl (StorageError ''Out of range value for column helpful''), d)
      else
        (Inr (Header 0 (length (filter (matching i) (rows d)))),
         d\<lparr> rows := map (\<lambda>r. if matching i r
                               then r\<lparr> helpful := map_option (\<lambda>n. n + 1) (helpful r) \<rparr>
                               else r) (rows d) \<rparr>))"
  by (simp add: engine_def sql_increment_helpful_def sql_increment_views_def sql_insert_def
      sql_select_by_id_def)

lemma engine_update:
  "engine sql_update [t, c, k, p, co, a, i] d =
     (case sql_texts [t, c, k, p, co, a] of
        Inl e \<Rightarrow> (Inl e, d)
      | Inr ts \<Rightarrow> update_topic ts i d)"
  by (simp add: engine_def sql_update_def sql_increment_helpful_def sql_increment_views_def
      sql_insert_def sql_select_by_id_def split: sum.split)

lemma engine_delete:
  "engine sql_delete [i] d =
     (Inr (Header 0 (length (filter (matching i) (rows d)))),
      d\<lparr> rows := filter (\<lambda>r. \<not> matching i r) (rows d) \<rparr>)"
  by (simp add: engine_def sql_delete_def sql_update_def sql_increment_helpful_def
      sql_increment_views_def sql_insert_def sql_select_by_id_def)

lemma digit_value_of_nat:
  assumes "d < 10"
  shows "digit_value (of_nat (48 + d)) = Some d"
proof -
  from assms have "d \<in> {0, 1, 2, 3, 4, 5, 6, 7, 8, 9}"
    by auto
  then show ?thesis
    by (auto simp: digit_value_def)
qed

lemma digits_value_snoc:
  "digits_value radix (ds @ [c]) =
     digits_value radix ds * radix + (case digit_value c of None \<Rightarrow> 0 | Some d \<Rightarrow> d)"
  by (simp add: digits_value_def)

lemma show_nat_digits:
  "show_nat n \<noteq> [] \<and> list_all (is_digit 10) (show_nat n) \<and> digits_value 10 (show_nat n) = n
     \<and> hd (show_nat n) \<noteq> 0x2D"
proof (induction n rule: show_nat.induct)
  case (1 n)
  show ?case
  proof (cases "n < 10")
    case True
    then have "digit_value (of_nat (48 + n)) = Some n"
      by (rule digit_value_of_nat)
    moreover from True have "n \<in> {0, 1, 2, 3, 4, 5, 6, 7, 8, 9}"
      by auto
    then have "(of_nat (48 + n) :: jschar) \<noteq> 0x2D"
      by auto
    moreover have "show_nat n = [of_nat (48 + n)]"
      using True by (subst show_nat.simps) simp
    ultimately show ?thesis
      using True by (simp add: is_digit_def digits_value_def del: of_nat_add)
  next
    case False
    have d: "digit_value (of_nat (48 + n mod 10)) = Some (n mod 10)"
      by (rule digit_value_of_nat) simp
    then have d': "is_digit 10 (of_nat (48 + n mod 10))"
      by (simp add: is_digit_def del: of_nat_add)
    from False have ih: "show_nat (n div 10) \<noteq> []"
      "list_all (is_digit 10) (show_nat (n div 10))"
      "digits_value 10 (show_nat (n div 10)) = n div 10"
      "hd (show_nat (n div 10)) \<noteq> 0x2D"
      using "1.IH" by blast+
    have eq: "show_nat n = show_nat (n div 10) @ [of_nat (48 + n mod 10)]"
      using False by (subst show_nat.simps) simp
    show ?thesis
      unfolding eq using ih d d'
      by (simp add: digits_value_snoc del: of_nat_add)
  qed
qed

lemma parse_decimal_decimal: "parse_decimal (decimal i) = Some i"
proof (cases "i < 0")
  case True
  then show ?thesis
    using show_nat_digits [of "nat (- i)"]
    by (simp add: decimal_def parse_decimal_def parse_nat_def)
next
  case False
  obtain c r where cr: "show_nat (nat i) = c # r"
    using show_nat_digits [of "nat i"] by (cases "show_nat (nat i)") auto
  with show_nat_digits [of "nat i"] have "c \<noteq> 0x2D"
    by (simp)
  with False cr show ?thesis
    using show_nat_digits [of "nat i"]
    by (simp add: decimal_def parse_decimal_def parse_nat_def)
qed

lemma id_matches_decimal: "id_matches (JStr (decimal i)) j \<longleftrightarrow> i = j"
  by (auto simp: parse_decimal_decimal)

lemma sql_texts_eq:
  "sql_texts vs =
     (if list_all storable vs then Inr (map stored vs)
      else Inl (StorageError ''You have an error in your SQL syntax''))"
  by (induction vs) (simp_all add: sql_text_def)

lemma post_topics_sends:
  "post_topics (Some p) body d =
     (if replace_throws (body ''content'') then
        (Response 500 (Error ''content.replace is not a function''), d)
      else
        (case p sql_insert (column_params body) d of
           (Inl e, d') \<Rightarrow> (Response 500 (Error (message e)), d')
         | (Inr result, d') \<Rightarrow>
             (Response 200 (Created (case result of Header i n \<Rightarrow> JNum i | _ \<Rightarrow> JUndefined)),
              d')))"
  by (cases "body ''content''")
    (simp_all add: post_topics_def Let_def replace_throws_def column_params_def
      keywordStr_of_def preview_of_def author_of_def)

lemma engine_insert_column_params:
  "engine sql_insert (column_params body) d =
     (if \<not> storable_params body then
        (Inl (StorageError ''You have an error in your SQL syntax''), d)
      else if stored (body ''title'') = None then
        (Inl (StorageError ''Column title cannot be null''), d)
      else if int_max < auto_increment d then
        (Inl (StorageError ''Duplicate entry for key PRIMARY''), d)
      else
        (Inr (Header (auto_increment d) 1),
         d\<lparr> rows := rows d @ [created_row body d], auto_increment := auto_increment d + 1 \<rparr>))"
proof (cases "stored (body ''title'')")
  case None
  then show ?thesis
    by (simp add: engine_insert sql_texts_eq storable_params_def del: sql_texts.simps)
      (simp add: column_params_def)
next
  case (Some t)
  then show ?thesis
    by (simp add: engine_insert sql_texts_eq storable_params_def del: sql_texts.simps)
      (simp add: column_params_def created_row_def)
qed

lemma post_topics_engine:
  "post_topics (Some engine) body d =
     (if replace_throws (body ''content'') then
        (Response 500 (Error ''content.replace is not a function''), d)
      else if \<not> storable_params body then
        (Response 500 (Error ''You have an error in your SQL syntax''), d)
      else if stored (body ''title'') = None then
        (Response 500 (Error ''Column title cannot be null''), d)
      else if int_max < auto_increment d then
        (Response 500 (Error ''Duplicate entry for key PRIMARY''), d)
      else
        (Response 200 (Created (JNum (auto_increment d))),
         d\<lparr> rows := rows d @ [created_row body d], auto_increment := auto_increment d + 1 \<rparr>))"
  by (simp add: post_topics_sends engine_insert_column_params)

lemma put_topic_sends:
  "put_topic (Some p) i u d =
     (if truthy (u ''incrementView'') then
        (case p sql_increment_views [JStr i] d of
           (Inl e, d') \<Rightarrow> (Response 500 (Error (message e)), d')
         | (Inr _, d') \<Rightarrow> (Response 200 Success, d'))
      else if truthy (u ''incrementHelpful'') then
        (case p sql_increment_helpful [JStr i] d of
           (Inl e, d') \<Rightarrow> (Response 500 (Error (message e)), d')
         | (Inr _, d') \<Rightarrow> (Response 200 Success, d'))
      else if replace_throws (u ''content'') then
        (Response 500 (Error ''content.replace is not a function''), d)
      else
        (case p sql_update (column_params u @ [JStr i]) d of
           (Inl e, d') \<Rightarrow> (Response 500 (Error (message e)), d')
         | (Inr _, d') \<Rightarrow> (Response 200 Success, d')))"
  by (cases "u ''content''")
    (simp_all add: put_topic_def Let_def replace_throws_def column_params_def
      keywordStr_of_def preview_of_def author_of_def)

lemma engine_update_column_params:
  "engine sql_update (column_params u @ [i]) d =
     (if \<not> storable_params u then
        (Inl (StorageError ''You have an error in your SQL syntax''), d)
      else if filter (matching i) (rows d) = [] then (Inr (Header 0 0), d)
      else if stored (u ''title'') = None then
        (Inl (StorageError ''Column title cannot be null''), d)
      else
        (Inr (Header 0 (length (filter (matching i) (rows d)))),
         d\<lparr> rows := map (\<lambda>r. if matching i r then replaced_row u r else r) (rows d) \<rparr>))"
proof -
  have "engine sql_update (column_params u @ [i]) d =
      (case sql_texts (column_params u) of
         Inl e \<Rightarrow> (Inl e, d)
       | Inr ts \<Rightarrow> update_topic ts i d)"
    by (simp add: column_params_def engine_update del: sql_texts.simps)
  then show ?thesis
    by (cases "stored (u ''title'')")
      (simp_all add: sql_texts_eq storable_params_def column_params_def replaced_row_def)
qed

lemma put_topic_engine:
  "put_topic (Some engine) i u d =
     (if truthy (u ''incrementView'') then
        (if list_ex (\<lambda>r. matching (JStr i) r \<and> at_int_max (views r)) (rows d) then
           (Response 500 (Error ''Out of range value for column views''), d)
         else
           (Response 200 Success,
            d\<lparr> rows := map (\<lambda>r. if matching (JStr i) r
                                  then r\<lparr> views := map_option (\<lambda>n. n + 1) (views r) \<rparr>
                                  else r) (rows d) \<rparr>))
      else if truthy (u ''incrementHelpful'') then
        (if list_ex (\<lambda>r. matching (JStr i) r \<and> at_int_max (helpful r)) (rows d) then
           (Response 500 (Error ''Out of range value for column helpful''), d)
         else
           (Response 200 Success,
            d\<lparr> rows := map (\<lambda>r. if matching (JStr i) r
                                  then r\<lparr> helpful := map_option (\<lambda>n. n + 1) (helpful r) \<rparr>
                                  else r) (rows d) \<rparr>))
      else if replace_throws (u ''content'') then
        (Response 500 (Error ''content.replace is not a function''), d)
      else if \<not> storable_params u then
        (Response 500 (Error ''You have an error in your SQL syntax''), d)
      else if filter (matching (JStr i)) (rows d) = [] then (Response 200 Success, d)
      else if stored (u ''title'') = None then
        (Response 500 (Error ''Column title cannot be null''), d)
      else
        (Response 200 Success,
         d\<lparr> rows := map (\<lambda>r. if matching (JStr i) r then replaced_row u r else r) (rows d) \<rparr>))"
  by (simp add: put_topic_sends engine_update_column_params engine_increment_views
      engine_increment_helpful)

lemma delete_topic_engine:
  "delete_topic (Some engine) i d =
     (Response 200 Success, d\<lparr> rows := filter (\<lambda>r. \<not> matching (JStr i) r) (rows d) \<rparr>)"
  by (simp add: delete_topic_def engine_delete)

lemma get_topic_engine:
  "get_topic (Some engine) now i d =
     (case filter (matching (JStr i)) (rows d) of
        [] \<Rightarrow> (Response 404 (Error ''Topic not found''), d)
      | r # _ \<Rightarrow> (Response 200 (Topic (to_topic now r)), d))"
  by (simp add: get_topic_def engine_select_by_id)

lemma get_created_topic:
  assumes "keys_below_counter d" and "topic_id r = auto_increment d"
  shows "get_topic (Some engine) now (decimal (auto_increment d))
           (d\<lparr> rows := rows d @ [r], auto_increment := auto_increment d + 1 \<rparr>) =
         (Response 200 (Topic (to_topic now r)),
          d\<lparr> rows := rows d @ [r], auto_increment := auto_increment d + 1 \<rparr>)"
proof -
  from assms(1) have "filter (matching (JStr (decimal (auto_increment d)))) (rows d) = []"
    by (auto simp: keys_below_counter_def matching_def id_matches_decimal list_all_iff
        filter_empty_conv simp del: id_matches.simps)
  moreover have "matching (JStr (decimal (auto_increment d))) r"
    using assms(2) by (simp add: matching_def id_matches_decimal del: id_matches.simps)
  ultimately show ?thesis
    by (simp add: get_topic_engine)
qed

section \<open>Strings: tags, joining and splitting\<close>

lemma strip_tags_open:
  "dropWhile (\<lambda>d. d \<noteq> 0x3E) cs = [] \<Longrightarrow> strip_tags (0x3C # cs) = 0x3C # strip_tags cs"
  by (simp only: strip_tags.simps list.case if_True refl simp_thms)

lemma strip_tags_closed:
  "dropWhile (\<lambda>d. d \<noteq> 0x3E) cs = d # rest \<Longrightarrow> strip_tags (0x3C # cs) = strip_tags rest"
  by (simp only: strip_tags.simps list.case if_True refl simp_thms)

lemma strip_tags_other: "c \<noteq> 0x3C \<Longrightarrow> strip_tags (c # cs) = c # strip_tags cs"
  by simp

lemma set_strip_tags: "set (strip_tags s) \<subseteq> set s"
proof (induction s rule: strip_tags.induct)
  case 1
  show ?case by simp
next
  case (2 c cs)
  show ?case
  proof (cases "c = 0x3C")
    case False
    with 2 show ?thesis
      by (auto simp: strip_tags_other simp del: strip_tags.simps)
  next
    case True
    show ?thesis
    proof (cases "dropWhile (\<lambda>d. d \<noteq> 0x3E) cs")
      case Nil
      with True 2 show ?thesis
        by (auto simp: strip_tags_open simp del: strip_tags.simps)
    next
      case (Cons d rest)
      then have "set rest \<subseteq> set cs"
        by (metis set_dropWhileD set_subset_Cons subsetD subsetI)
      with True Cons 2 show ?thesis
        by (auto simp: strip_tags_closed simp del: strip_tags.simps)
    qed
  qed
qed

lemma has_tag_needs_gt: "0x3E \<notin> set s \<Longrightarrow> \<not> has_tag s"
  by (induction s) auto

lemma strip_tags_no_tag: "\<not> has_tag (strip_tags s)"
proof (induction s rule: strip_tags.induct)
  case 1
  show ?case by simp
next
  case (2 c cs)
  show ?case
  proof (cases "c = 0x3C")
    case False
    with 2 show ?thesis
      by (simp add: strip_tags_other del: strip_tags.simps)
  next
    case True
    show ?thesis
    proof (cases "dropWhile (\<lambda>d. d \<noteq> 0x3E) cs")
      case Nil
      then have "0x3E \<notin> set cs"
        by (auto simp: dropWhile_eq_Nil_conv)
      with set_strip_tags [of cs] have "0x3E \<notin> set (strip_tags cs)"
        by blast
      with True Nil 2 show ?thesis
        by (simp add: strip_tags_open del: strip_tags.simps)
    next
      case (Cons d rest)
      with True 2 show ?thesis
        by (simp add: strip_tags_closed del: strip_tags.simps)
    qed
  qed
qed

lemma has_tag_append:
  "has_tag (xs @ ys) \<longleftrightarrow> has_tag xs \<or> has_tag ys \<or> (0x3C \<in> set xs \<and> 0x3E \<in> set ys)"
  by (induction xs) auto

lemma has_tag_take: "has_tag (take n s) \<Longrightarrow> has_tag s"
proof -
  assume "has_tag (take n s)"
  then have "has_tag (take n s @ drop n s)"
    by (simp only: has_tag_append) simp
  then show ?thesis by simp
qed

lemma preview_no_tag: "\<not> has_tag (take n (strip_tags s) @ ascii ''...'')"
  using has_tag_take [of n "strip_tags s"] strip_tags_no_tag [of s]
  by (auto simp: has_tag_append ascii_def)

lemma split_without: "c \<notin> set x \<Longrightarrow> split c x = [x]"
  by (induction x) auto

lemma split_append: "c \<notin> set x \<Longrightarrow> split c (x @ c # rest) = x # split c rest"
  by (induction x) auto

lemma split_not_Nil: "split c s \<noteq> []"
  by (induction s) (auto split: list.splits)

lemma first_part_split: "first_part (split c s) = takeWhile (\<lambda>x. x \<noteq> c) s"
  by (induction s) (auto simp: first_part_def split: list.splits)

lemma split_join:
  assumes "\<forall>k \<in> set ks. c \<notin> set k" and "ks \<noteq> []" and "b \<noteq> c"
  shows "split c (join [c, b] ks) = hd ks # map ((#) b) (tl ks)"
  using assms
proof (induction "[c, b]" ks rule: join.induct)
  case 1
  then show ?case by simp
next
  case (2 x)
  then show ?case by (simp add: split_without)
next
  case (3 x y ys)
  then have "split c (join [c, b] (y # ys)) = y # map ((#) b) ys"
    by simp
  with 3 show ?case
    by (simp add: split_append)
qed

lemma trim_space_Cons: "is_space b \<Longrightarrow> trim (b # k) = trim k"
  by (simp add: trim_def)

lemma join_eq_Nil: "sep \<noteq> [] \<Longrightarrow> join sep ks = [] \<longleftrightarrow> ks = [] \<or> ks = [[]]"
  by (induction sep ks rule: join.induct) auto

lemma trim_spaced:
  "is_space b \<Longrightarrow> \<forall>k \<in> set ks. trim k = k \<Longrightarrow> map trim (map ((#) b) ks) = ks"
  by (induction ks) (simp_all add: trim_space_Cons)

lemma array_join_strings: "array_join sep (map JStr ks) = join sep ks"
  by (simp add: array_join_def comp_def)

lemma keywords_round_trip:
  assumes "\<forall>k \<in> set ks. 0x2C \<notin> set k \<and> trim k = k" and "ks \<noteq> [[]]"
  shows "(let k = join (ascii '', '') ks in if k = [] then [] else map trim (split 0x2C k)) = ks"
proof (cases "ks = []")
  case True
  then show ?thesis by simp
next
  case False
  have sep: "ascii '', '' = [0x2C, 0x20]"
    by (simp add: ascii_def)
  have sp: "is_space 0x20"
    by (simp add: is_space_def)
  from assms(1) False have "split 0x2C (join [0x2C, 0x20] ks) = hd ks # map ((#) 0x20) (tl ks)"
    by (intro split_join) auto
  moreover have "map trim (hd ks # map ((#) 0x20) (tl ks)) = hd ks # tl ks"
    using assms(1) False trim_spaced [OF sp, of "tl ks"]
    by (cases ks) auto
  ultimately show ?thesis
    using False assms(2) by (simp add: sep join_eq_Nil Let_def)
qed

section \<open>What a create and a full replacement leave\<close>

lemma preview_of_bound: "length (preview_of c) \<le> 203"
  by (cases c) (simp_all add: preview_of_def ascii_def)

lemma preview_of_no_tag: "\<not> has_tag (preview_of c)"
  by (cases c) (simp_all add: preview_of_def preview_no_tag del: strip_tags.simps)

lemma created_columns:
  assumes "post_topics (Some engine) body d = (Response 200 created, d')"
  shows "created = Created (JNum (auto_increment d))"
    and "d' = d\<lparr> rows := rows d @ [created_row body d], auto_increment := auto_increment d + 1 \<rparr>"
    and "stored (body ''title'') = Some (title (created_row body d))"
    and "storable_params body" and "\<not> replace_throws (body ''content'')"
  using assms
  by (auto simp: post_topics_engine created_row_def split: if_splits)

lemma replaced_columns:
  assumes "\<not> truthy (u ''incrementView'')" and "\<not> truthy (u ''incrementHelpful'')"
    and "put_topic (Some engine) i u d = (Response 200 Success, d')"
  shows "rows d' = map (\<lambda>r. if matching (JStr i) r then replaced_row u r else r) (rows d)"
    and "storable_params u" and "\<not> replace_throws (u ''content'')"
proof -
  have "map (\<lambda>r. if matching (JStr i) r then replaced_row u r else r) (rows d) = rows d"
    if "filter (matching (JStr i)) (rows d) = []"
    using that by (simp add: filter_empty_conv map_idI)
  with assms show "rows d' = map (\<lambda>r. if matching (JStr i) r then replaced_row u r else r) (rows d)"
    and "storable_params u" and "\<not> replace_throws (u ''content'')"
    by (auto simp: put_topic_engine split: if_splits)
qed

text \<open>What the handlers send, read off a pool that records it.\<close>

lemma post_topics_recording:
  "post_topics (Some recording) body [] =
     (if replace_throws (body ''content'') then
        (Response 500 (Error ''content.replace is not a function''), [])
      else (Response 200 (Created (JNum 0)), [(sql_insert, column_params body)]))"
  by (simp add: post_topics_sends recording_def)

lemma put_topic_recording:
  "put_topic (Some recording) i u [] =
     (if truthy (u ''incrementView'') then
        (Response 200 Success, [(sql_increment_views, [JStr i])])
      else if truthy (u ''incrementHelpful'') then
        (Response 200 Success, [(sql_increment_helpful, [JStr i])])
      else if replace_throws (u ''content'') then
        (Response 500 (Error ''content.replace is not a function''), [])
      else (Response 200 Success, [(sql_update, column_params u @ [JStr i])]))"
  by (simp add: put_topic_sends recording_def)

text \<open>
  A truthy content that is not a string makes a full replacement fail before any
  statement is sent, whatever the id.
\<close>

lemma update_rejects_non_string_content:
  "\<not> truthy (u ''incrementView'') \<Longrightarrow> \<not> truthy (u ''incrementHelpful'')
     \<Longrightarrow> replace_throws (u ''content'')
     \<Longrightarrow> put_topic (Some p) i u d =
         (Response 500 (Error ''content.replace is not a function''), d)"
  by (simp add: put_topic_sends)

lemma keys_below_counter_empty: "keys_below_counter (empty_db t)"
  by (simp add: keys_below_counter_def empty_db_def)

text \<open>The handlers keep every key below the counter.\<close>

lemma keys_below_counter_kept:
  assumes "keys_below_counter d"
  shows "keys_below_counter (snd (post_topics (Some engine) body d))"
    and "keys_below_counter (snd (put_topic (Some engine) i u d))"
    and "keys_below_counter (snd (delete_topic (Some engine) i d))"
proof -
  from assms have below: "\<forall>r \<in> set (rows d). topic_id r < auto_increment d"
    by (simp add: keys_below_counter_def list_all_iff)
  then have "\<forall>r \<in> set (rows d). topic_id r < auto_increment d + 1"
    by auto
  then show "keys_below_counter (snd (post_topics (Some engine) body d))"
    using assms
    by (simp add: post_topics_engine keys_below_counter_def list_all_iff created_row_def)
  have kept: "keys_below_counter
      (d\<lparr> rows := map (\<lambda>r. if matching (JStr i) r then f r else r) (rows d) \<rparr>)"
    if "\<And>r. topic_id (f r) = topic_id r" for f
    using below that by (auto simp: keys_below_counter_def list_all_iff)
  have "topic_id (replaced_row u r) = topic_id r" for r
    by (simp add: replaced_row_def)
  then show "keys_below_counter (snd (put_topic (Some engine) i u d))"
    using assms by (simp add: put_topic_engine kept)
  from below show "keys_below_counter (snd (delete_topic (Some engine) i d))"
    by (simp add: delete_topic_engine keys_below_counter_def list_all_iff)
qed

section \<open>The scenario\<close>

lemma strip_tags_example: "strip_tags (ascii ''<b>Hi</b> there'') = ascii ''Hi there''"
  by (simp add: ascii_def)

lemma example_create:
  "post_topics (Some engine) example_body (empty_db example_time) =
     (Response 200 (Created (JNum 1)), example_db)"
  by (simp add: post_topics_engine example_body_def no_properties_def replace_throws_def
      storable_params_def column_params_def keywordStr_of_def author_of_def preview_of_def
      created_row_def empty_db_def example_db_def example_row_def strip_tags_example
      int_max_def del: strip_tags.simps)
    (simp add: ascii_def)

lemma matching_example:
  "matching (JStr (ascii ''1'')) example_row" "\<not> matching (JStr (ascii ''2'')) example_row"
  "\<not> matching (JStr (ascii ''999'')) example_row"
  by (simp_all add: matching_def example_row_def parse_decimal_def parse_nat_def ascii_def
      is_digit_def digit_value_def digits_value_def)

lemma example_replace_same:
  "put_topic (Some engine) (ascii ''1'') example_body example_db = (Response 200 Success, example_db)"
  by (simp add: put_topic_engine example_body_def no_properties_def replace_throws_def
      storable_params_def column_params_def keywordStr_of_def author_of_def preview_of_def
      replaced_row_def example_db_def matching_example strip_tags_example
      del: strip_tags.simps)
    (simp add: example_row_def ascii_def)

lemma example_flags:
  "\<not> truthy (example_body ''incrementView'') \<and> \<not> truthy (example_body ''incrementHelpful'')
   \<and> put_topic (Some engine) (ascii ''1'') example_body example_db = (Response 200 Success, example_db)"
  by (simp add: example_replace_same) (simp add: example_body_def no_properties_def)

lemma example_unsigned_create:
  "\<not> truthy (example_unsigned ''author'')
   \<and> post_topics (Some engine) example_unsigned (empty_db example_time) =
       (Response 200 (Created (JNum 1)), example_db)"
  by (simp add: post_topics_engine example_unsigned_def example_body_def no_properties_def
      replace_throws_def storable_params_def column_params_def keywordStr_of_def author_of_def
      preview_of_def created_row_def empty_db_def example_db_def example_row_def
      strip_tags_example int_max_def del: strip_tags.simps)
    (simp add: ascii_def)

lemma example_unsigned_replace:
  "\<not> truthy (example_unsigned ''author'')
   \<and> \<not> truthy (example_unsigned ''incrementView'')
   \<and> \<not> truthy (example_unsigned ''incrementHelpful'')
   \<and> put_topic (Some engine) (ascii ''1'') example_unsigned example_db =
       (Response 200 Success, example_db)"
  by (simp add: put_topic_engine example_unsigned_def example_body_def no_properties_def
      replace_throws_def storable_params_def column_params_def keywordStr_of_def author_of_def
      preview_of_def replaced_row_def example_db_def matching_example strip_tags_example
      del: strip_tags.simps)
    (simp add: example_row_def ascii_def)

lemma example_db_lookup:
  "topic_id r = 1 \<Longrightarrow>
   get_topic (Some engine) now (ascii ''1'') \<lparr> rows = [r], auto_increment = 2, clock = t \<rparr> =
   (Response 200 (Topic (to_topic now r)), \<lparr> rows = [r], auto_increment = 2, clock = t \<rparr>)"
  by (simp add: get_topic_engine matching_def parse_decimal_def parse_nat_def ascii_def
      is_digit_def digit_value_def digits_value_def)

lemma example_keywords_create:
  "post_topics (Some engine) (example_body(''keywords'' := JArr (map JStr ks)))
     (empty_db example_time) =
   (Response 200 (Created (JNum 1)),
    \<lparr> rows = [example_row\<lparr> keywords := Some (join (ascii '', '') ks) \<rparr>],
      auto_increment = 2, clock = example_time \<rparr>)"
  by (simp add: post_topics_engine example_body_def no_properties_def replace_throws_def
      storable_params_def column_params_def keywordStr_of_def author_of_def preview_of_def
      created_row_def empty_db_def example_row_def strip_tags_example array_join_strings
      int_max_def del: strip_tags.simps)
    (simp add: ascii_def)



lemma example_bad_update:
  "\<not> truthy (example_bad_content ''incrementView'')
   \<and> \<not> truthy (example_bad_content ''incrementHelpful'')
   \<and> example_bad_content ''title'' = JStr (ascii ''T'')
   \<and> example_bad_content ''content'' = JNum 5
   \<and> put_topic (Some engine) j example_bad_content e =
       (Response 500 (Error ''content.replace is not a function''), e)"
  by (simp add: put_topic_engine replace_throws_def example_bad_content_def example_update_def
      no_properties_def)


lemma to_topic_example:
  "to_topic example_time example_row =
     \<lparr> topic_id = 1, title = ascii ''X'', category = None, keywords = [],
       preview = Some (ascii ''Hi there...''), content = Some (ascii ''<b>Hi</b> there''),
       author = Some placeholder_author, created_date = Some example_time,
       views = Some 0, helpful = Some 0, date = ascii ''2024-05-06'' \<rparr>"
  by (simp add: to_topic_def example_row_def first_part_split example_time_def)
    (simp add: ascii_def)

section \<open>The claims\<close>

text \<open>
  C4. With no pool, listing topics answers with the empty array and category
  statistics answer with the empty array, both with status 200; create, update and
  delete answer with status 500 and the error \<open>Database not available\<close>. No handler
  touches the storage state. (Fetching one topic answers 404 then: see C5.)
\<close>

theorem no_pool_degrades:
  "get_topics None now query d = (Response 200 (Topics []), d)
   \<and> get_category_stats None d = (Response 200 (Raw (Rows [])), d)
   \<and> post_topics None body d = (Response 500 (Error ''Database not available''), d)
   \<and> put_topic None i updates d = (Response 500 (Error ''Database not available''), d)
   \<and> delete_topic None i d = (Response 500 (Error ''Database not available''), d)"
  by (simp add: get_topics_def get_category_stats_def post_topics_def put_topic_def
      delete_topic_def)

text \<open>
  C7. For every pool, storage state, search and limit, listing with
  \<open>category=all\<close> gives the response and the state that listing without a category
  gives: both send the same statement with the same parameters.
\<close>

theorem category_all_is_no_filter:
  "get_topics pool now (query(''category'' := JStr (ascii ''all''))) d =
   get_topics pool now (query(''category'' := JUndefined)) d"
  by (cases pool) (simp_all add: get_topics_def Let_def)

text \<open>
  C5. On the engine, fetching by id answers with 200 and the topic of the row when
  exactly one row matches the id, and with 404 and \<open>Topic not found\<close> when none
  does; with no pool it always answers with 404 and \<open>Topic not found\<close>. An id in
  decimal matches the rows with that key. The topic holds every column of the row
  as stored, the keywords as the trimmed parts of the stored string between commas
  (none for \<open>NULL\<close> and for the empty string), and as date the creation time up to
  its \<open>T\<close> (the current time's when the creation time is \<open>NULL\<close>).
\<close>

theorem get_topic_by_id:
  "(filter (matching (JStr i)) (rows d) = [r] \<longrightarrow>
      get_topic (Some engine) now i d = (Response 200 (Topic (to_topic now r)), d))
   \<and> (filter (matching (JStr i)) (rows d) = [] \<longrightarrow>
      get_topic (Some engine) now i d = (Response 404 (Error ''Topic not found''), d))
   \<and> get_topic None now i d' = (Response 404 (Error ''Topic not found''), d')
   \<and> (matching (JStr (decimal n)) r \<longleftrightarrow> topic_id r = n)
   \<and> topic_id (to_topic now r) = topic_id r
   \<and> title (to_topic now r) = title r
   \<and> category (to_topic now r) = category r
   \<and> preview (to_topic now r) = preview r
   \<and> content (to_topic now r) = content r
   \<and> author (to_topic now r) = author r
   \<and> created_date (to_topic now r) = created_date r
   \<and> views (to_topic now r) = views r
   \<and> helpful (to_topic now r) = helpful r
   \<and> keywords (to_topic now r) =
       (case keywords r of
          None \<Rightarrow> []
        | Some k \<Rightarrow> if k = [] then [] else map trim (split 0x2C k))
   \<and> date (to_topic now r) =
       takeWhile (\<lambda>c. c \<noteq> 0x54) (case created_date r of None \<Rightarrow> now | Some t \<Rightarrow> t)
   \<and> (keywords r = Some (ascii ''a, b'') \<longrightarrow>
        keywords (to_topic now r) = [ascii ''a'', ascii ''b''])
   \<and> (created_date r = Some (ascii ''2024-05-06T07:08:09.000Z'') \<longrightarrow>
        date (to_topic now r) = ascii ''2024-05-06'')"
proof -
  have fetch: "(filter (matching (JStr i)) (rows d) = [r] \<longrightarrow>
      get_topic (Some engine) now i d = (Response 200 (Topic (to_topic now r)), d))
   \<and> (filter (matching (JStr i)) (rows d) = [] \<longrightarrow>
      get_topic (Some engine) now i d = (Response 404 (Error ''Topic not found''), d))
   \<and> get_topic None now i d' = (Response 404 (Error ''Topic not found''), d')"
    by (simp add: get_topic_engine) (simp add: get_topic_def)
  have key: "matching (JStr (decimal n)) r \<longleftrightarrow> topic_id r = n"
    unfolding matching_def by (auto simp: id_matches_decimal simp del: id_matches.simps)
  have columns: "topic_id (to_topic now r) = topic_id r \<and> title (to_topic now r) = title r
      \<and> category (to_topic now r) = category r \<and> preview (to_topic now r) = preview r
      \<and> content (to_topic now r) = content r \<and> author (to_topic now r) = author r
      \<and> created_date (to_topic now r) = created_date r \<and> views (to_topic now r) = views r
      \<and> helpful (to_topic now r) = helpful r"
    by (simp add: to_topic_def)
  have words: "keywords (to_topic now r) =
       (case keywords r of
          None \<Rightarrow> []
        | Some k \<Rightarrow> if k = [] then [] else map trim (split 0x2C k))"
    by (simp add: to_topic_def)
  have day: "date (to_topic now r) =
       takeWhile (\<lambda>c. c \<noteq> 0x54) (case created_date r of None \<Rightarrow> now | Some t \<Rightarrow> t)"
    by (simp add: to_topic_def first_part_split split: option.split)
  have two: "keywords r = Some (ascii ''a, b'') \<longrightarrow>
        keywords (to_topic now r) = [ascii ''a'', ascii ''b'']"
    by (simp add: words) (simp add: ascii_def trim_def is_space_def)
  have may: "created_date r = Some (ascii ''2024-05-06T07:08:09.000Z'') \<longrightarrow>
        date (to_topic now r) = ascii ''2024-05-06''"
    by (simp add: day) (simp add: ascii_def)
  from fetch key columns words day two may show ?thesis
    by blast
qed

theorem get_topic_by_id_witness:
  "filter (matching (JStr (ascii ''1''))) (rows example_db) = [example_row]
   \<and> get_topic (Some engine) example_time (ascii ''1'') example_db =
       (Response 200 (Topic (to_topic example_time example_row)), example_db)
   \<and> to_topic example_time example_row =
       \<lparr> topic_id = 1, title = ascii ''X'', category = None, keywords = [],
         preview = Some (ascii ''Hi there...''), content = Some (ascii ''<b>Hi</b> there''),
         author = Some placeholder_author, created_date = Some example_time,
         views = Some 0, helpful = Some 0, date = ascii ''2024-05-06'' \<rparr>
   \<and> filter (matching (JStr (ascii ''2''))) (rows example_db) = []
   \<and> get_topic (Some engine) example_time (ascii ''2'') example_db =
       (Response 404 (Error ''Topic not found''), example_db)"
proof -
  have one: "filter (matching (JStr (ascii ''1''))) (rows example_db) = [example_row]"
    and none: "filter (matching (JStr (ascii ''2''))) (rows example_db) = []"
    by (simp_all add: matching_example example_db_def)
  have "get_topic (Some engine) example_time (ascii ''1'') example_db =
       (Response 200 (Topic (to_topic example_time example_row)), example_db)"
    by (rule get_topic_by_id [THEN conjunct1, THEN mp, OF one])
  moreover have "get_topic (Some engine) example_time (ascii ''2'') example_db =
       (Response 404 (Error ''Topic not found''), example_db)"
    by (rule get_topic_by_id [THEN conjunct2, THEN conjunct1, THEN mp, OF none])
  ultimately show ?thesis
    using one none to_topic_example by (simp only: simp_thms)
qed

text \<open>
  C1. After a successful create the new row's preview, and after a successful full
  replacement the preview of every row that matches the id, is \<open>preview_of\<close> of
  the submitted content: for a non-empty string, its first 200 code units after
  every tag is removed, followed by \<open>...\<close>; for the empty string, \<open>null\<close> and an
  absent content, the empty string. No tag is left after the removal. The content
  \<open><b>Hi</b> there\<close> gives the preview \<open>Hi there...\<close>.
\<close>

theorem stored_preview:
  "(post_topics (Some engine) body d = (Response 200 created, d') \<longrightarrow>
      map preview (rows d') = map preview (rows d) @ [Some (preview_of (body ''content''))])
   \<and> (\<not> truthy (u ''incrementView'') \<and> \<not> truthy (u ''incrementHelpful'')
        \<and> put_topic (Some engine) i u e = (Response 200 Success, e') \<longrightarrow>
      map preview (rows e') =
        map (\<lambda>r. if matching (JStr i) r then Some (preview_of (u ''content'')) else preview r)
          (rows e))
   \<and> preview_of (JStr (c # cs)) = take 200 (strip_tags (c # cs)) @ ascii ''...''
   \<and> preview_of (JStr []) = []
   \<and> preview_of JNull = []
   \<and> preview_of JUndefined = []
   \<and> \<not> has_tag (strip_tags s)
   \<and> preview_of (JStr (ascii ''<b>Hi</b> there'')) = ascii ''Hi there...''"
proof -
  have "map preview (rows d') = map preview (rows d) @ [Some (preview_of (body ''content''))]"
    if "post_topics (Some engine) body d = (Response 200 created, d')"
    using created_columns(2) [OF that] by (simp add: created_row_def)
  moreover have "map preview (rows e') =
        map (\<lambda>r. if matching (JStr i) r then Some (preview_of (u ''content'')) else preview r)
          (rows e)"
    if "\<not> truthy (u ''incrementView'')" "\<not> truthy (u ''incrementHelpful'')"
      "put_topic (Some engine) i u e = (Response 200 Success, e')"
    using replaced_columns(1) [OF that] by (simp add: replaced_row_def)
  moreover have "preview_of (JStr (ascii ''<b>Hi</b> there'')) = ascii ''Hi there...''"
    by (simp add: preview_of_def strip_tags_example del: strip_tags.simps)
      (simp add: ascii_def)
  ultimately show ?thesis
    by (simp add: preview_of_def strip_tags_no_tag del: strip_tags.simps)
qed

theorem stored_preview_witness:
  "post_topics (Some engine) example_body (empty_db example_time) =
     (Response 200 (Created (JNum 1)), example_db)
   \<and> map preview (rows example_db) =
       map preview (rows (empty_db example_time)) @ [Some (preview_of (example_body ''content''))]
   \<and> \<not> truthy (example_body ''incrementView'')
   \<and> \<not> truthy (example_body ''incrementHelpful'')
   \<and> put_topic (Some engine) (ascii ''1'') example_body example_db =
       (Response 200 Success, example_db)
   \<and> map preview (rows example_db) =
       map (\<lambda>r. if matching (JStr (ascii ''1'')) r
                 then Some (preview_of (example_body ''content'')) else preview r)
         (rows example_db)"
proof -
  have "map preview (rows example_db) =
      map preview (rows (empty_db example_time)) @ [Some (preview_of (example_body ''content''))]"
    by (rule stored_preview [THEN conjunct1, THEN mp, OF example_create])
  moreover have "map preview (rows example_db) =
       map (\<lambda>r. if matching (JStr (ascii ''1'')) r
                 then Some (preview_of (example_body ''content'')) else preview r)
         (rows example_db)"
    by (rule stored_preview [THEN conjunct2, THEN conjunct1, THEN mp, OF example_flags])
  ultimately show ?thesis
    using example_create example_flags by (simp only: simp_thms)
qed

text \<open>
  C10. Whenever the submitted author is falsy (the empty string, \<open>null\<close>, absent, 0
  or \<open>false\<close>), a successful create stores the placeholder as the new row's author,
  and a successful full replacement stores it in every row that matches the id.
  The placeholder is the seven code units \<open>Usu\<close>, U+00E1, \<open>rio\<close>: it is not the
  empty string, which is what a submitted empty author would be stored as.
\<close>

theorem falsy_author_stored_as_placeholder:
  "(\<not> truthy (body ''author'')
      \<and> post_topics (Some engine) body d = (Response 200 created, d') \<longrightarrow>
      map author (rows d') = map author (rows d) @ [Some placeholder_author])
   \<and> (\<not> truthy (u ''author'') \<and> \<not> truthy (u ''incrementView'')
        \<and> \<not> truthy (u ''incrementHelpful'')
        \<and> put_topic (Some engine) i u e = (Response 200 Success, e') \<longrightarrow>
      map author (rows e') =
        map (\<lambda>r. if matching (JStr i) r then Some placeholder_author else author r) (rows e))
   \<and> \<not> truthy (JStr []) \<and> \<not> truthy JUndefined \<and> \<not> truthy JNull
   \<and> \<not> truthy (JNum 0) \<and> \<not> truthy (JBool False)
   \<and> placeholder_author = ascii ''Usu'' @ [0xE1] @ ascii ''rio''
   \<and> placeholder_author \<noteq> []
   \<and> Some placeholder_author \<noteq> stored (JStr [])"
proof -
  have "map author (rows d') = map author (rows d) @ [Some placeholder_author]"
    if "\<not> truthy (body ''author'')"
      and "post_topics (Some engine) body d = (Response 200 created, d')"
    using created_columns(2) [OF that(2)] that(1)
    by (simp add: created_row_def author_of_def)
  moreover have "map author (rows e') =
        map (\<lambda>r. if matching (JStr i) r then Some placeholder_author else author r) (rows e)"
    if "\<not> truthy (u ''author'')" and "\<not> truthy (u ''incrementView'')"
      and "\<not> truthy (u ''incrementHelpful'')"
      and "put_topic (Some engine) i u e = (Response 200 Success, e')"
    using replaced_columns(1) [OF that(2,3,4)] that(1)
    by (simp add: replaced_row_def author_of_def)
  moreover have "placeholder_author = ascii ''Usu'' @ [0xE1] @ ascii ''rio''"
    by (simp add: placeholder_author_def)
  moreover have "placeholder_author \<noteq> []" "Some placeholder_author \<noteq> stored (JStr [])"
    by (simp_all add: placeholder_author_def)
  ultimately show ?thesis
    by simp
qed

theorem falsy_author_stored_as_placeholder_witness:
  "map author (rows example_db) = [Some (ascii ''Usu'' @ [0xE1] @ ascii ''rio'')]
   \<and> example_unsigned ''author'' = JStr []
   \<and> \<not> truthy (example_unsigned ''author'')
   \<and> post_topics (Some engine) example_unsigned (empty_db example_time) =
       (Response 200 (Created (JNum 1)), example_db)
   \<and> map author (rows example_db) =
       map author (rows (empty_db example_time)) @ [Some placeholder_author]
   \<and> put_topic (Some engine) (ascii ''1'') example_unsigned example_db =
       (Response 200 Success, example_db)
   \<and> map author (rows example_db) =
       map (\<lambda>r. if matching (JStr (ascii ''1'')) r then Some placeholder_author else author r)
         (rows example_db)"
proof -
  have "map author (rows example_db) =
      map author (rows (empty_db example_time)) @ [Some placeholder_author]"
    by (rule falsy_author_stored_as_placeholder
        [THEN conjunct1, THEN mp, OF example_unsigned_create])
  moreover have "map author (rows example_db) =
      map (\<lambda>r. if matching (JStr (ascii ''1'')) r then Some placeholder_author else author r)
        (rows example_db)"
    by (rule falsy_author_stored_as_placeholder
        [THEN conjunct2, THEN conjunct1, THEN mp, OF example_unsigned_replace])
  moreover have "example_unsigned ''author'' = JStr []"
    by (simp add: example_unsigned_def)
  moreover have "map author (rows example_db) = [Some (ascii ''Usu'' @ [0xE1] @ ascii ''rio'')]"
    by (simp add: example_db_def example_row_def placeholder_author_def)
  ultimately show ?thesis
    using example_unsigned_create example_unsigned_replace by (simp only: simp_thms)
qed

text \<open>
  C8. For every body that selects the full replacement, update sends the keywords
  string and the preview that create sends for the same body: the parameters of the
  update are those of the insert followed by the id, and one fails with the
  \<open>TypeError\<close> of \<open>content.replace\<close> exactly when the other does.
\<close>

theorem update_recomputes_as_create:
  "\<not> truthy (body ''incrementView'') \<and> \<not> truthy (body ''incrementHelpful'') \<longrightarrow>
     map (keywords_param \<circ> snd) (snd (put_topic (Some recording) i body [])) =
       map (keywords_param \<circ> snd) (snd (post_topics (Some recording) body []))
     \<and> map (preview_param \<circ> snd) (snd (put_topic (Some recording) i body [])) =
       map (preview_param \<circ> snd) (snd (post_topics (Some recording) body []))
     \<and> map snd (snd (put_topic (Some recording) i body [])) =
       map (\<lambda>ps. ps @ [JStr i]) (map snd (snd (post_topics (Some recording) body [])))
     \<and> (fst (put_topic (Some recording) i body []) = Response 500 (Error m)
          \<longleftrightarrow> fst (post_topics (Some recording) body []) = Response 500 (Error m))"
  by (simp add: post_topics_recording put_topic_recording)
    (simp add: column_params_def keywords_param_def preview_param_def)

theorem update_recomputes_as_create_witness:
  "\<not> truthy (example_body ''incrementView'') \<and> \<not> truthy (example_body ''incrementHelpful'')
   \<and> map (keywords_param \<circ> snd) (snd (put_topic (Some recording) (ascii ''1'') example_body [])) =
       map (keywords_param \<circ> snd) (snd (post_topics (Some recording) example_body []))
   \<and> map (preview_param \<circ> snd) (snd (put_topic (Some recording) (ascii ''1'') example_body [])) =
       map (preview_param \<circ> snd) (snd (post_topics (Some recording) example_body []))
   \<and> map (preview_param \<circ> snd) (snd (post_topics (Some recording) example_body [])) =
       [Some (JStr (ascii ''Hi there...''))]
   \<and> map (keywords_param \<circ> snd) (snd (post_topics (Some recording) example_body [])) =
       [Some (JStr [])]"
proof -
  have flags: "\<not> truthy (example_body ''incrementView'')
      \<and> \<not> truthy (example_body ''incrementHelpful'')"
    by (simp add: example_body_def no_properties_def)
  note same = update_recomputes_as_create [of example_body "ascii ''1''" "[]", THEN mp, OF flags]
  have "snd (post_topics (Some recording) example_body []) =
      [(sql_insert, column_params example_body)]"
    by (simp add: post_topics_recording replace_throws_def example_body_def)
  moreover have "preview_param (column_params example_body) = Some (JStr (ascii ''Hi there...''))"
    by (simp add: column_params_def preview_param_def example_body_def preview_of_def
        strip_tags_example del: strip_tags.simps)
      (simp add: ascii_def)
  moreover have "keywords_param (column_params example_body) = Some (JStr [])"
    by (simp add: column_params_def keywords_param_def example_body_def no_properties_def
        keywordStr_of_def)
  ultimately show ?thesis
    using same flags by simp
qed

text \<open>
  C9, as stated, fails. No row of \<open>example_db\<close> has the id 999, and the update of
  that id with the title \<open>T\<close> and the content 5 answers with status 500:
  \<open>content.replace\<close> throws.
\<close>

theorem unmatched_update_counterexample:
  "filter (matching (JStr (ascii ''999''))) (rows example_db) = []
   \<and> \<not> truthy (example_bad_content ''incrementView'')
   \<and> \<not> truthy (example_bad_content ''incrementHelpful'')
   \<and> example_bad_content ''title'' = JStr (ascii ''T'')
   \<and> example_bad_content ''content'' = JNum 5
   \<and> put_topic (Some engine) (ascii ''999'') example_bad_content example_db =
       (Response 500 (Error ''content.replace is not a function''), example_db)"
proof -
  have "filter (matching (JStr (ascii ''999''))) (rows example_db) = []"
    by (simp add: example_db_def matching_example)
  then show ?thesis
    using example_bad_update [of "ascii ''999''" example_db] by (simp only: simp_thms)
qed

text \<open>
  C9, amended. When no row matches the id, delete reports success; update reports
  success in both increment modes, and in the full replacement whenever the request
  is one the handler and the engine accept (content is falsy or a string, and no
  parameter is an array, an object or \<open>NaN\<close>). An update that does not report
  success reports an error that the same body gets with every id on every state:
  the error is not about the id. The storage state is unchanged in every case.
\<close>

theorem unmatched_id_succeeds:
  "filter (matching (JStr i)) (rows d) = [] \<longrightarrow>
     delete_topic (Some engine) i d = (Response 200 Success, d)
     \<and> (truthy (u ''incrementView'') \<or> truthy (u ''incrementHelpful'') \<longrightarrow>
          put_topic (Some engine) i u d = (Response 200 Success, d))
     \<and> (\<not> replace_throws (u ''content'') \<and> storable_params u \<longrightarrow>
          put_topic (Some engine) i u d = (Response 200 Success, d))
     \<and> (put_topic (Some engine) i u d = (Response 200 Success, d)
          \<or> (\<exists>m. \<forall>j e. put_topic (Some engine) j u e = (Response 500 (Error m), e)))
     \<and> snd (put_topic (Some engine) i u d) = d"
proof
  assume none: "filter (matching (JStr i)) (rows d) = []"
  then have no: "\<forall>r \<in> set (rows d). \<not> matching (JStr i) r"
    by (simp add: filter_empty_conv)
  then have same: "filter (\<lambda>r. \<not> matching (JStr i) r) (rows d) = rows d"
    "map (\<lambda>r. if matching (JStr i) r then f r else r) (rows d) = rows d" for f
    by (simp_all add: map_idI)
  have delete: "delete_topic (Some engine) i d = (Response 200 Success, d)"
    by (simp add: delete_topic_engine same)
  from no have in_range:
    "\<not> list_ex (\<lambda>r. matching (JStr i) r \<and> at_int_max (views r)) (rows d)"
    "\<not> list_ex (\<lambda>r. matching (JStr i) r \<and> at_int_max (helpful r)) (rows d)"
    by (simp_all add: list_ex_iff)
  have flag: "truthy (u ''incrementView'') \<or> truthy (u ''incrementHelpful'') \<longrightarrow>
      put_topic (Some engine) i u d = (Response 200 Success, d)"
    by (simp add: put_topic_engine same in_range)
  have accepted: "\<not> replace_throws (u ''content'') \<and> storable_params u \<longrightarrow>
      put_topic (Some engine) i u d = (Response 200 Success, d)"
    using none by (simp add: put_topic_engine same in_range)
  have unchanged: "snd (put_topic (Some engine) i u d) = d"
    using none by (simp add: put_topic_engine same in_range)
  have "\<forall>j e. put_topic (Some engine) j u e =
      (Response 500 (Error ''content.replace is not a function''), e)"
    if "\<not> truthy (u ''incrementView'')" "\<not> truthy (u ''incrementHelpful'')"
      "replace_throws (u ''content'')"
    using that by (simp add: put_topic_engine)
  moreover have "\<forall>j e. put_topic (Some engine) j u e =
      (Response 500 (Error ''You have an error in your SQL syntax''), e)"
    if "\<not> truthy (u ''incrementView'')" "\<not> truthy (u ''incrementHelpful'')"
      "\<not> replace_throws (u ''content'')" "\<not> storable_params u"
    using that by (simp add: put_topic_engine)
  ultimately have either: "put_topic (Some engine) i u d = (Response 200 Success, d)
      \<or> (\<exists>m. \<forall>j e. put_topic (Some engine) j u e = (Response 500 (Error m), e))"
    using flag accepted by blast
  show "delete_topic (Some engine) i d = (Response 200 Success, d)
     \<and> (truthy (u ''incrementView'') \<or> truthy (u ''incrementHelpful'') \<longrightarrow>
          put_topic (Some engine) i u d = (Response 200 Success, d))
     \<and> (\<not> replace_throws (u ''content'') \<and> storable_params u \<longrightarrow>
          put_topic (Some engine) i u d = (Response 200 Success, d))
     \<and> (put_topic (Some engine) i u d = (Response 200 Success, d)
          \<or> (\<exists>m. \<forall>j e. put_topic (Some engine) j u e = (Response 500 (Error m), e)))
     \<and> snd (put_topic (Some engine) i u d) = d"
    by (intro conjI delete flag accepted either unchanged)
qed

theorem unmatched_id_succeeds_witness:
  "filter (matching (JStr (ascii ''999''))) (rows example_db) = []
   \<and> delete_topic (Some engine) (ascii ''999'') example_db = (Response 200 Success, example_db)
   \<and> \<not> replace_throws (example_body ''content'') \<and> storable_params example_body
   \<and> put_topic (Some engine) (ascii ''999'') example_body example_db =
       (Response 200 Success, example_db)"
proof -
  have none: "filter (matching (JStr (ascii ''999''))) (rows example_db) = []"
    by (simp add: example_db_def matching_example)
  have ok: "\<not> replace_throws (example_body ''content'') \<and> storable_params example_body"
    by (simp add: replace_throws_def storable_params_def column_params_def example_body_def
        no_properties_def keywordStr_of_def author_of_def)
  note w = unmatched_id_succeeds [of "ascii ''999''" example_db example_body, THEN mp, OF none]
  from w have "delete_topic (Some engine) (ascii ''999'') example_db =
      (Response 200 Success, example_db)"
    by (rule conjunct1)
  moreover from w ok have "put_topic (Some engine) (ascii ''999'') example_body example_db =
      (Response 200 Success, example_db)"
    by (simp only: simp_thms)
  ultimately show ?thesis
    using none ok by (simp only: simp_thms)
qed

text \<open>
  C2, as stated, fails. The keyword \<open> a\<close> (a space, then \<open>a\<close>) holds no comma and
  is read back as \<open>a\<close>: reading trims every part. The list of the one empty
  keyword is stored as the empty string and read back as the empty list.
\<close>

theorem keywords_round_trip_counterexample:
  "post_topics (Some engine) example_spaced (empty_db example_time) =
     (Response 200 (Created (JNum 1)),
      \<lparr> rows = [example_row\<lparr> keywords := Some (ascii '' a'') \<rparr>],
        auto_increment = 2, clock = example_time \<rparr>)
   \<and> fst (get_topic (Some engine) example_time (ascii ''1'')
          \<lparr> rows = [example_row\<lparr> keywords := Some (ascii '' a'') \<rparr>],
            auto_increment = 2, clock = example_time \<rparr>) =
       Response 200
         (Topic (to_topic example_time
                   (example_row\<lparr> keywords := Some (ascii '' a'') \<rparr>)))
   \<and> keywords (to_topic example_time
                  (example_row\<lparr> keywords := Some (ascii '' a'') \<rparr>)) =
       [ascii ''a'']
   \<and> example_spaced ''keywords'' = JArr [JStr (ascii '' a'')]
   \<and> 0x2C \<notin> set (ascii '' a'')
   \<and> [ascii ''a''] \<noteq> [ascii '' a'']
   \<and> post_topics (Some engine) example_blank (empty_db example_time) =
       (Response 200 (Created (JNum 1)),
        \<lparr> rows = [example_row\<lparr> keywords := Some [] \<rparr>],
          auto_increment = 2, clock = example_time \<rparr>)
   \<and> fst (get_topic (Some engine) example_time (ascii ''1'')
          \<lparr> rows = [example_row\<lparr> keywords := Some [] \<rparr>],
            auto_increment = 2, clock = example_time \<rparr>) =
       Response 200
         (Topic (to_topic example_time (example_row\<lparr> keywords := Some [] \<rparr>)))
   \<and> keywords (to_topic example_time (example_row\<lparr> keywords := Some [] \<rparr>)) = []
   \<and> example_blank ''keywords'' = JArr [JStr []]
   \<and> [] \<noteq> [[] :: jsstring]"
proof -
  have "post_topics (Some engine) example_spaced (empty_db example_time) =
     (Response 200 (Created (JNum 1)),
      \<lparr> rows = [example_row\<lparr> keywords := Some (ascii '' a'') \<rparr>],
        auto_increment = 2, clock = example_time \<rparr>)"
    using example_keywords_create [of "[ascii '' a'']"]
    by (simp add: example_spaced_def)
  moreover have "post_topics (Some engine) example_blank (empty_db example_time) =
       (Response 200 (Created (JNum 1)),
        \<lparr> rows = [example_row\<lparr> keywords := Some [] \<rparr>],
          auto_increment = 2, clock = example_time \<rparr>)"
    using example_keywords_create [of "[[]]"]
    by (simp add: example_blank_def)
  moreover have "keywords (to_topic example_time
                  (example_row\<lparr> keywords := Some (ascii '' a'') \<rparr>)) =
       [ascii ''a'']"
    by (simp add: to_topic_def ascii_def trim_def is_space_def)
  moreover have "keywords (to_topic example_time
      (example_row\<lparr> keywords := Some [] \<rparr>)) = []"
    by (simp add: to_topic_def)
  moreover have "0x2C \<notin> set (ascii '' a'')" "[ascii ''a''] \<noteq> [ascii '' a'']"
    by (simp_all add: ascii_def)
  ultimately show ?thesis
    by (simp add: example_db_lookup example_row_def) (simp add: example_spaced_def example_blank_def)
qed

text \<open>
  C2, amended. For every list of string keywords in which no keyword holds a comma
  and no keyword begins or ends with white space, other than the list of the one
  empty keyword, fetching the topic after a successful create returns the list
  that was submitted.
\<close>

theorem keywords_round_trip_trimmed:
  "keys_below_counter d \<and> body ''keywords'' = JArr (map JStr ks)
     \<and> list_all (\<lambda>k. 0x2C \<notin> set k \<and> trim k = k) ks \<and> ks \<noteq> [[]]
     \<and> post_topics (Some engine) body d = (Response 200 (Created (JNum n)), d') \<longrightarrow>
   get_topic (Some engine) now (decimal n) d' =
     (Response 200 (Topic (to_topic now (created_row body d))), d')
   \<and> keywords (to_topic now (created_row body d)) = ks"
proof (intro impI, elim conjE)
  assume wf: "keys_below_counter d" and kw: "body ''keywords'' = JArr (map JStr ks)"
    and ok: "list_all (\<lambda>k. 0x2C \<notin> set k \<and> trim k = k) ks" and ne: "ks \<noteq> [[]]"
    and post: "post_topics (Some engine) body d = (Response 200 (Created (JNum n)), d')"
  from created_columns(1) [OF post] have n: "n = auto_increment d"
    by simp
  have "topic_id (created_row body d) = auto_increment d"
    by (simp add: created_row_def)
  from get_created_topic [OF wf this, of now] created_columns(2) [OF post] n
  have get: "get_topic (Some engine) now (decimal n) d' =
      (Response 200 (Topic (to_topic now (created_row body d))), d')"
    by simp
  from ok have "\<forall>k \<in> set ks. 0x2C \<notin> set k \<and> trim k = k"
    by (simp add: list_all_iff)
  then have round: "(let k = join (ascii '', '') ks
       in if k = [] then [] else map trim (split 0x2C k)) = ks"
    using ne by (rule keywords_round_trip)
  have "keywords (to_topic now (created_row body d)) =
      (let k = join (ascii '', '') ks in if k = [] then [] else map trim (split 0x2C k))"
    by (simp add: to_topic_def created_row_def kw keywordStr_of_def array_join_strings Let_def)
  also note round
  finally have "keywords (to_topic now (created_row body d)) = ks" .
  with get show "get_topic (Some engine) now (decimal n) d' =
     (Response 200 (Topic (to_topic now (created_row body d))), d')
   \<and> keywords (to_topic now (created_row body d)) = ks"
    by simp
qed

theorem keywords_round_trip_trimmed_witness:
  "keys_below_counter (empty_db example_time)
   \<and> example_tagged ''keywords'' = JArr (map JStr [ascii ''a'', ascii ''b''])
   \<and> list_all (\<lambda>k. 0x2C \<notin> set k \<and> trim k = k) [ascii ''a'', ascii ''b'']
   \<and> [ascii ''a'', ascii ''b''] \<noteq> [[]]
   \<and> post_topics (Some engine) example_tagged (empty_db example_time) =
       (Response 200 (Created (JNum 1)),
        \<lparr> rows = [example_row\<lparr> keywords := Some (join (ascii '', '') [ascii ''a'', ascii ''b'']) \<rparr>],
          auto_increment = 2, clock = example_time \<rparr>)
   \<and> keywords (to_topic example_time (created_row example_tagged (empty_db example_time))) =
       [ascii ''a'', ascii ''b'']"
proof -
  have hyp: "keys_below_counter (empty_db example_time)
     \<and> example_tagged ''keywords'' = JArr (map JStr [ascii ''a'', ascii ''b''])
     \<and> list_all (\<lambda>k. 0x2C \<notin> set k \<and> trim k = k) [ascii ''a'', ascii ''b'']
     \<and> [ascii ''a'', ascii ''b''] \<noteq> [[]]
     \<and> post_topics (Some engine) example_tagged (empty_db example_time) =
       (Response 200 (Created (JNum 1)),
        \<lparr> rows = [example_row\<lparr> keywords := Some (join (ascii '', '') [ascii ''a'', ascii ''b'']) \<rparr>],
          auto_increment = 2, clock = example_time \<rparr>)"
    using example_keywords_create [of "[ascii ''a'', ascii ''b'']"]
    by (simp add: keys_below_counter_empty example_tagged_def)
      (simp add: ascii_def trim_def is_space_def)
  from keywords_round_trip_trimmed [THEN mp, OF hyp, of example_time]
  have "keywords (to_topic example_time (created_row example_tagged (empty_db example_time))) =
       [ascii ''a'', ascii ''b'']"
    by (rule conjunct2)
  with hyp show ?thesis
    by (simp only: simp_thms)
qed

text \<open>
  C6, as stated, fails. The topic created from the content \<open><b>Hi</b> there\<close> is
  fetched with the preview \<open>Hi there...\<close>, which is no prefix of the content without
  its tags, \<open>Hi there\<close>: the ellipsis follows the prefix.
\<close>

theorem preview_prefix_counterexample:
  "post_topics (Some engine) example_body (empty_db example_time) =
     (Response 200 (Created (JNum 1)), example_db)
   \<and> get_topic (Some engine) example_time (ascii ''1'') example_db =
       (Response 200 (Topic (to_topic example_time example_row)), example_db)
   \<and> preview (to_topic example_time example_row) = Some (ascii ''Hi there...'')
   \<and> example_body ''content'' = JStr (ascii ''<b>Hi</b> there'')
   \<and> strip_tags (ascii ''<b>Hi</b> there'') = ascii ''Hi there''
   \<and> \<not> prefix (ascii ''Hi there...'') (ascii ''Hi there'')"
proof -
  have "get_topic (Some engine) example_time (ascii ''1'') example_db =
       (Response 200 (Topic (to_topic example_time example_row)), example_db)"
    unfolding example_db_def by (rule example_db_lookup) (simp add: example_row_def)
  moreover have "preview (to_topic example_time example_row) = Some (ascii ''Hi there...'')"
    by (simp add: to_topic_def example_row_def)
  moreover have "\<not> prefix (ascii ''Hi there...'') (ascii ''Hi there'')"
    by (simp add: ascii_def)
  moreover have "example_body ''content'' = JStr (ascii ''<b>Hi</b> there'')"
    by (simp add: example_body_def)
  ultimately show ?thesis
    using example_create strip_tags_example by (simp only: simp_thms)
qed

text \<open>
  C6, amended. After a successful create on a table whose keys are below the
  counter, fetching the new id returns the row that was stored: its title, category
  and author are those stored, which are the submitted title and category and the
  submitted author or the placeholder. Its preview is empty when the content is
  empty or absent, and otherwise a prefix of at most 200 code units of the content
  without its tags, followed by \<open>...\<close>.
\<close>

theorem fetch_after_create:
  "(keys_below_counter d
      \<and> post_topics (Some engine) body d = (Response 200 (Created (JNum n)), d') \<longrightarrow>
      get_topic (Some engine) now (decimal n) d' =
        (Response 200 (Topic (to_topic now (created_row body d))), d')
      \<and> rows d' = rows d @ [created_row body d]
      \<and> title (to_topic now (created_row body d)) = title (created_row body d)
      \<and> category (to_topic now (created_row body d)) = category (created_row body d)
      \<and> author (to_topic now (created_row body d)) = author (created_row body d)
      \<and> Some (title (created_row body d)) = stored (body ''title'')
      \<and> category (created_row body d) = stored (body ''category'')
      \<and> author (created_row body d) = stored (author_of (body ''author''))
      \<and> preview (to_topic now (created_row body d)) = Some (preview_of (body ''content'')))
   \<and> preview_of (JStr (c # cs)) = take 200 (strip_tags (c # cs)) @ ascii ''...''
   \<and> prefix (take 200 (strip_tags s)) (strip_tags s)
   \<and> length (take 200 (strip_tags s)) \<le> 200
   \<and> \<not> has_tag (strip_tags s)
   \<and> preview_of (JStr []) = [] \<and> preview_of JNull = [] \<and> preview_of JUndefined = []
   \<and> stored (JStr s) = Some s \<and> stored JNull = None \<and> stored JUndefined = None"
proof -
  have "get_topic (Some engine) now (decimal n) d' =
        (Response 200 (Topic (to_topic now (created_row body d))), d')
      \<and> rows d' = rows d @ [created_row body d]
      \<and> Some (title (created_row body d)) = stored (body ''title'')"
    if wf: "keys_below_counter d"
      and post: "post_topics (Some engine) body d = (Response 200 (Created (JNum n)), d')"
  proof -
    from created_columns(1) [OF post] have n: "n = auto_increment d"
      by simp
    have "topic_id (created_row body d) = auto_increment d"
      by (simp add: created_row_def)
    from get_created_topic [OF wf this, of now] created_columns(2,3) [OF post] n
    show ?thesis
      by simp
  qed
  moreover have "prefix (take 200 (strip_tags s)) (strip_tags s)"
    by (rule take_is_prefix)
  ultimately show ?thesis
    by (simp add: to_topic_def strip_tags_no_tag del: strip_tags.simps)
      (simp add: created_row_def preview_of_def)
qed

theorem fetch_after_create_witness:
  "keys_below_counter (empty_db example_time)
   \<and> post_topics (Some engine) example_body (empty_db example_time) =
       (Response 200 (Created (JNum 1)), example_db)
   \<and> get_topic (Some engine) example_time (decimal 1) example_db =
       (Response 200
          (Topic (to_topic example_time (created_row example_body (empty_db example_time)))),
        example_db)
   \<and> Some (title (created_row example_body (empty_db example_time))) =
       stored (example_body ''title'')
   \<and> preview (to_topic example_time (created_row example_body (empty_db example_time))) =
       Some (preview_of (example_body ''content''))"
proof -
  have hyp: "keys_below_counter (empty_db example_time)
      \<and> post_topics (Some engine) example_body (empty_db example_time) =
       (Response 200 (Created (JNum 1)), example_db)"
    using keys_below_counter_empty example_create by (simp only: simp_thms)
  note w = fetch_after_create [THEN conjunct1, THEN mp, OF hyp, of example_time]
  from w have "get_topic (Some engine) example_time (decimal 1) example_db =
       (Response 200
          (Topic (to_topic example_time (created_row example_body (empty_db example_time)))),
        example_db)"
    by (rule conjunct1)
  moreover from w have "Some (title (created_row example_body (empty_db example_time))) =
       stored (example_body ''title'')"
    by (elim conjE)
  moreover from w
  have "preview (to_topic example_time (created_row example_body (empty_db example_time))) =
       Some (preview_of (example_body ''content''))"
    by (elim conjE)
  ultimately show ?thesis
    using hyp by (simp only: simp_thms)
qed




end
